theory Spec2Isabelle
  imports Complex_Main "HOL-Library.Log_Nat"
begin

section \<open>Python and numpy values\<close>

text \<open>
  Exceptions are values of one datatype; a function that can raise returns
  \<open>py_error + 'a\<close> with \<open>Inl\<close> for the exception. A time in seconds is a Python
  float, modelled by the rational number it denotes. The timeline assembler
  multiplies and divides floats: there every result is rounded to double precision
  as the source rounds it (see below). The subtitle times and the progress of a
  stage are computed on the exact values. Audio samples are rationals, and every
  clip is mono (a one-dimensional array), as the speech engine produces them.
\<close>

datatype py_error =
    ValueError
  | IndexError
  | ZeroDivisionError
  | OverflowError
  | KeyError
  | LibsndfileError
  | CollaboratorError string
  | HTTPException nat string

type_synonym sample = rat

text \<open>Truncation toward zero: \<open>int(x)\<close> on a finite float, \<open>astype(int)\<close> in numpy.\<close>

definition py_int :: "rat \<Rightarrow> int" where
  "py_int x = (if 0 \<le> x then \<lfloor>x\<rfloor> else \<lceil>x\<rceil>)"

text \<open>
  The rounding the specification speaks of, \<open>round(x)\<close>: to the nearest integer, a tie
  going to the even neighbour as Python's built-in does. No function of the source
  calls it; it is here to be compared with \<open>py_int\<close>.
\<close>

definition spec_round :: "rat \<Rightarrow> int" where
  "spec_round x =
     (let f = \<lfloor>x\<rfloor>; d = x - of_int f
      in if d < 1 / 2 then f
         else if 1 / 2 < d then f + 1
         else if even f then f else f + 1)"

subsection \<open>Double-precision arithmetic\<close>

text \<open>
  A finite double is a rational \<open>m * 2 ^ e\<close> with an integer \<open>m\<close> of at most 53 bits
  and \<open>e\<close> not below -1074. An operation on floats returns the exact result rounded
  to the nearest double, a tie going to the even \<open>m\<close>: \<open>fl\<close> of the exact result.
  \<open>ilog2 x\<close> is the exponent of the highest bit of a positive \<open>x\<close>, found from the
  bit lengths of numerator and denominator.

  A result whose magnitude reaches \<open>2 ^ 1024\<close> is infinite in Python; \<open>fl\<close> keeps it
  finite and \<open>huge\<close> recognises it. Infinite and NaN inputs are not modelled.
\<close>

definition round_half_even :: "rat \<Rightarrow> int" where
  "round_half_even x =
     (let f = \<lfloor>x\<rfloor>; d = x - of_int f
      in if d < 1 / 2 then f
         else if 1 / 2 < d then f + 1
         else if even f then f else f + 1)"

definition pow2 :: "int \<Rightarrow> rat" where
  "pow2 e = (if 0 \<le> e then 2 ^ nat e else 1 / 2 ^ nat (- e))"

definition ilog2 :: "rat \<Rightarrow> int" where
  "ilog2 x =
     (let k = bitlen (fst (quotient_of x)) - bitlen (snd (quotient_of x))
      in if pow2 k \<le> x then k else k - 1)"

definition fl :: "rat \<Rightarrow> rat" where
  "fl x =
     (if x = 0 then 0
      else let e = max (ilog2 \<bar>x\<bar> - 52) (- 1074)
           in of_int (round_half_even (x / pow2 e)) * pow2 e)"

definition huge :: "rat \<Rightarrow> bool" where
  "huge x = (x \<noteq> 0 \<and> 1024 \<le> ilog2 \<bar>x\<bar>)"

text \<open>
  \<open>float(i)\<close> for a Python int, as the multiplication of a float by an int converts
  it: an int too large for a float raises \<open>OverflowError\<close>.
\<close>

definition float_of_int :: "int \<Rightarrow> py_error + rat" where
  "float_of_int i = (let x = fl (of_int i) in if huge x then Inl OverflowError else Inr x)"

text \<open>\<open>int(x)\<close> for a float: an infinite \<open>x\<close> raises \<open>OverflowError\<close>.\<close>

definition int_of_float :: "rat \<Rightarrow> py_error + int" where
  "int_of_float x = (if huge x then Inl OverflowError else Inr (py_int x))"

text \<open>
  \<open>int(x * i)\<close> for a float \<open>x\<close> and a Python int \<open>i\<close> (in either order of the
  factors): the int is converted, the product is rounded, the result is truncated.
\<close>

definition int_of_product :: "rat \<Rightarrow> int \<Rightarrow> py_error + int" where
  "int_of_product x i =
     (case float_of_int i of
        Inl e \<Rightarrow> Inl e
      | Inr y \<Rightarrow> int_of_float (fl (x * y)))"

text \<open>
  \<open>a / b\<close> for two Python ints: the quotient rounded to a double, \<open>ZeroDivisionError\<close>
  for a zero divisor, \<open>OverflowError\<close> for a quotient too large for a float.
\<close>

definition true_divide :: "int \<Rightarrow> int \<Rightarrow> py_error + rat" where
  "true_divide a b =
     (if b = 0 then Inl ZeroDivisionError
      else let q = fl (of_int a / of_int b)
           in if huge q then Inl OverflowError else Inr q)"

subsection \<open>Slices of one-dimensional arrays\<close>

text \<open>
  A slice bound \<open>i\<close> of a sequence of length \<open>n\<close>: a negative bound counts from the
  end, and the result is clamped to \<open>0..n\<close>.
\<close>

definition slice_index :: "int \<Rightarrow> nat \<Rightarrow> nat" where
  "slice_index i n = (if i < 0 then nat (max 0 (i + int n)) else min (nat i) n)"

text \<open>\<open>xs[:k]\<close>\<close>

definition slice_prefix :: "'a list \<Rightarrow> int \<Rightarrow> 'a list" where
  "slice_prefix xs k = take (slice_index k (length xs)) xs"

text \<open>The array \<open>out\<close> with \<open>vals\<close> stored from position \<open>a\<close> on.\<close>

definition overwrite :: "'a list \<Rightarrow> nat \<Rightarrow> 'a list \<Rightarrow> 'a list" where
  "overwrite out a vals = take a out @ vals @ drop (a + length vals) out"

text \<open>
  \<open>out[lo:hi] = src\<close> on numpy arrays. The destination is the range of the slice
  (empty when the upper bound is not above the lower one). A source of the same
  length is copied, a source of length one is broadcast over the destination, and
  any other source raises \<open>ValueError\<close> (could not broadcast input array).
\<close>

definition slice_assign :: "'a list \<Rightarrow> int \<Rightarrow> int \<Rightarrow> 'a list \<Rightarrow> py_error + 'a list" where
  "slice_assign out lo hi src =
     (let a = slice_index lo (length out);
          b = slice_index hi (length out);
          m = b - a
      in if length src = m then Inr (overwrite out a src)
         else if length src = 1 then Inr (overwrite out a (replicate m (hd src)))
         else Inl ValueError)"

text \<open>
  \<open>np.linspace(0, stop, num).astype(int)\<close> for ints \<open>stop\<close> and \<open>num\<close>. numpy
  computes \<open>step = stop / (num - 1)\<close> and the positions \<open>i * step\<close> in floats, sets the
  last position to \<open>stop\<close> itself and truncates every position to an integer. A
  negative \<open>num\<close> raises \<open>ValueError\<close>; a single position is 0.
\<close>

definition linspace_indices :: "int \<Rightarrow> int \<Rightarrow> py_error + int list" where
  "linspace_indices stop num =
     (if num < 0 then Inl ValueError
      else if num = 0 then Inr []
      else if num = 1 then Inr [0]
      else
        let step = fl (fl (of_int stop) / fl (of_int (num - 1)))
        in Inr (map (\<lambda>i. py_int (fl (fl (of_nat i) * step))) [0..<nat (num - 1)]
                @ [py_int (fl (of_int stop))]))"

text \<open>
  \<open>xs[idx]\<close> with an integer index array: a negative index counts from the end, an
  index out of range raises \<open>IndexError\<close>.
\<close>

definition fancy_index :: "'a list \<Rightarrow> int list \<Rightarrow> py_error + 'a list" where
  "fancy_index xs idx =
     (if list_all (\<lambda>i. - int (length xs) \<le> i \<and> i < int (length xs)) idx
      then Inr (map (\<lambda>i. xs ! nat (if i < 0 then i + int (length xs) else i)) idx)
      else Inl IndexError)"

section \<open>Files\<close>

text \<open>
  The file system maps a path to the file stored there: a sound file (its samples
  and its sample rate) or any other content, which \<open>soundfile.read\<close> cannot decode.
  Directories are not recorded.
\<close>

datatype fsnode = Wav "sample list" int | Blob "nat list"

type_synonym filesystem = "string \<Rightarrow> fsnode option"

section \<open>Timeline assembler (services/video.py)\<close>

text \<open>
  A segment is the dict \<open>{id, start, end, text}\<close> of the transcript; a synthesized
  segment has the key \<open>audio_path\<close> as well. \<open>audio_path\<close> is \<open>None\<close> where the dict
  has no such key.
\<close>

record segment =
  seg_id :: int
  seg_start :: rat
  seg_end :: rat
  audio_path :: "string option"
  seg_text :: string

definition DEFAULT_SAMPLE_RATE :: int where
  "DEFAULT_SAMPLE_RATE = 24000"

text \<open>
  Lines 209 to 214: the clip at the output rate. \<open>ratio = sample_rate / sr\<close> is a
  division of two ints, \<open>new_length = int(len(segment_audio) * ratio)\<close> truncates a
  float product.
\<close>

definition resample :: "sample list \<Rightarrow> int \<Rightarrow> int \<Rightarrow> py_error + sample list" where
  "resample segment_audio sr sample_rate =
     (case true_divide sample_rate sr of
        Inl e \<Rightarrow> Inl e
      | Inr ratio \<Rightarrow>
          (case int_of_product ratio (int (length segment_audio)) of
             Inl e \<Rightarrow> Inl e
           | Inr new_length \<Rightarrow>
               (case linspace_indices (int (length segment_audio) - 1) new_length of
                  Inl e \<Rightarrow> Inl e
                | Inr indices \<Rightarrow> fancy_index segment_audio indices)))"

text \<open>Lines 206 to 214: the clip as it is written, resampled only when the rates differ.\<close>

definition load_clip :: "sample list \<Rightarrow> int \<Rightarrow> int \<Rightarrow> py_error + sample list" where
  "load_clip segment_audio sr sample_rate =
     (if sr \<noteq> sample_rate then resample segment_audio sr sample_rate
      else Inr segment_audio)"

text \<open>
  Lines 218 to 222: the clip stored into the output buffer from \<open>start_sample\<close> on.
  \<open>dest_range\<close> gives the bounds of the destination \<open>output_audio[start_sample:end_sample]\<close>
  as positions of the buffer.
\<close>

definition store_clip :: "sample list \<Rightarrow> int \<Rightarrow> sample list \<Rightarrow> py_error + sample list" where
  "store_clip output_audio start_sample segment_audio =
     (let total_samples = int (length output_audio);
          end_sample = min (start_sample + int (length segment_audio)) total_samples;
          segment_length = end_sample - start_sample
      in slice_assign output_audio start_sample end_sample
           (slice_prefix segment_audio segment_length))"

definition dest_range :: "nat \<Rightarrow> int \<Rightarrow> nat \<Rightarrow> nat \<times> nat" where
  "dest_range total_samples start_sample len =
     (slice_index start_sample total_samples,
      slice_index (min (start_sample + int len) (int total_samples)) total_samples)"

text \<open>Lines 217 to 222, with \<open>start_sample = int(start_time * sample_rate)\<close>.\<close>

definition place_clip :: "sample list \<Rightarrow> rat \<Rightarrow> int \<Rightarrow> sample list \<Rightarrow> py_error + sample list" where
  "place_clip output_audio start_time sample_rate segment_audio =
     (case int_of_product start_time sample_rate of
        Inl e \<Rightarrow> Inl e
      | Inr start_sample \<Rightarrow> store_clip output_audio start_sample segment_audio)"

text \<open>
  The body of the loop over the segments (lines 199 to 222). A segment with no path,
  an empty path or a path that does not exist is skipped.
\<close>

definition write_segment ::
  "filesystem \<Rightarrow> int \<Rightarrow> sample list \<Rightarrow> segment \<Rightarrow> py_error + sample list" where
  "write_segment fs sample_rate output_audio seg =
     (case audio_path seg of
        None \<Rightarrow> Inr output_audio
      | Some p \<Rightarrow>
          if p = [] then Inr output_audio
          else
            (case fs p of
               None \<Rightarrow> Inr output_audio
             | Some (Blob _) \<Rightarrow> Inl LibsndfileError
             | Some (Wav segment_audio sr) \<Rightarrow>
                 (case load_clip segment_audio sr sample_rate of
                    Inl e \<Rightarrow> Inl e
                  | Inr clip \<Rightarrow> place_clip output_audio (seg_start seg) sample_rate clip)))"

fun write_segments ::
  "filesystem \<Rightarrow> int \<Rightarrow> sample list \<Rightarrow> segment list \<Rightarrow> py_error + sample list" where
  "write_segments fs sample_rate output_audio [] = Inr output_audio"
| "write_segments fs sample_rate output_audio (seg # segments) =
     (case write_segment fs sample_rate output_audio seg of
        Inl e \<Rightarrow> Inl e
      | Inr output_audio' \<Rightarrow> write_segments fs sample_rate output_audio' segments)"

text \<open>
  Lines 194 to 222: the buffer that is saved, with
  \<open>total_samples = int(total_duration * sample_rate)\<close>. \<open>np.zeros\<close> of a negative
  length raises \<open>ValueError\<close>.
\<close>

definition assemble_timeline ::
  "filesystem \<Rightarrow> segment list \<Rightarrow> rat \<Rightarrow> int \<Rightarrow> py_error + sample list" where
  "assemble_timeline fs segments total_duration sample_rate =
     (case int_of_product total_duration sample_rate of
        Inl e \<Rightarrow> Inl e
      | Inr total_samples \<Rightarrow>
          if total_samples < 0 then Inl ValueError
          else write_segments fs sample_rate (replicate (nat total_samples) 0) segments)"

text \<open>
  The whole function: the buffer is written to \<open>output_path\<close> at the output rate and
  the path is returned.
\<close>

definition concatenate_audio_with_timing ::
  "filesystem \<Rightarrow> segment list \<Rightarrow> rat \<Rightarrow> string \<Rightarrow> int \<Rightarrow> py_error + (string \<times> filesystem)" where
  "concatenate_audio_with_timing fs segments total_duration output_path sample_rate =
     (case assemble_timeline fs segments total_duration sample_rate of
        Inl e \<Rightarrow> Inl e
      | Inr output_audio \<Rightarrow>
          Inr (output_path, fs(output_path \<mapsto> Wav output_audio sample_rate)))"

text \<open>
  The clip that the loop body stores for a segment: none for a segment that is
  skipped or whose clip cannot be loaded. A segment covers a position of a buffer of
  \<open>total_samples\<close> samples when the position lies in the destination range of its
  clip.
\<close>

definition clip_of :: "filesystem \<Rightarrow> int \<Rightarrow> segment \<Rightarrow> sample list option" where
  "clip_of fs sample_rate seg =
     (case audio_path seg of
        None \<Rightarrow> None
      | Some p \<Rightarrow>
          if p = [] then None
          else
            (case fs p of
               None \<Rightarrow> None
             | Some (Blob _) \<Rightarrow> None
             | Some (Wav segment_audio sr) \<Rightarrow>
                 (case load_clip segment_audio sr sample_rate of
                    Inl e \<Rightarrow> None
                  | Inr clip \<Rightarrow> Some clip)))"


section \<open>Strings and paths\<close>

text \<open>
  Strings are lists of 8-bit characters. \<open>str.strip()\<close> removes white space at both
  ends; \<open>is_space\<close> is Python's \<open>str.isspace\<close> on the code points below 256.
\<close>

definition is_space :: "char \<Rightarrow> bool" where
  "is_space c = (of_char c \<in> set [9, 10, 11, 12, 13, 28, 29, 30, 31, 32, 133, 160 :: nat])"

definition strip :: "string \<Rightarrow> string" where
  "strip s = rev (dropWhile is_space (rev (dropWhile is_space s)))"

text \<open>\<open>str.lower()\<close> on the ASCII letters.\<close>

definition lower_char :: "char \<Rightarrow> char" where
  "lower_char c = (if 65 \<le> (of_char c :: nat) \<and> (of_char c :: nat) \<le> 90
                   then char_of (of_char c + 32 :: nat) else c)"

definition lower :: "string \<Rightarrow> string" where
  "lower s = map lower_char s"

text \<open>\<open>sep.join(parts)\<close>\<close>

fun join :: "string \<Rightarrow> string list \<Rightarrow> string" where
  "join sep [] = []"
| "join sep [x] = x"
| "join sep (x # y # ys) = x @ sep @ join sep (y # ys)"

text \<open>The decimal digits of a natural number: \<open>str(n)\<close>.\<close>

fun digits :: "nat \<Rightarrow> string" where
  "digits n = (if n < 10 then [''0123456789'' ! n]
               else digits (n div 10) @ [''0123456789'' ! (n mod 10)])"

declare digits.simps [simp del]

text \<open>
  The format \<open>{n:0wd}\<close>: the digits of \<open>n\<close> padded with zeros to width \<open>w\<close>, a minus
  sign counting toward the width.
\<close>

definition zfill :: "nat \<Rightarrow> string \<Rightarrow> string" where
  "zfill w s = replicate (w - length s) (CHR ''0'') @ s"

definition format_0d :: "nat \<Rightarrow> int \<Rightarrow> string" where
  "format_0d w n = (if n < 0 then CHR ''-'' # zfill (w - 1) (digits (nat (- n)))
                    else zfill w (digits (nat n)))"

text \<open>
  Paths are strings with \<open>/\<close> between the components. \<open>path_join a b\<close> is \<open>a / b\<close>,
  \<open>path_parent p\<close> is \<open>Path(p).parent\<close> for a path of two components or more, and
  \<open>path_suffix p\<close> is \<open>Path(p).suffix\<close>: the last component from its last dot on,
  when that dot is neither its first nor its last character.
\<close>

definition path_join :: "string \<Rightarrow> string \<Rightarrow> string" where
  "path_join a b = a @ ''/'' @ b"

definition path_parent :: "string \<Rightarrow> string" where
  "path_parent p = rev (drop 1 (dropWhile (\<lambda>c. c \<noteq> CHR ''/'') (rev p)))"

definition path_name :: "string \<Rightarrow> string" where
  "path_name p = rev (takeWhile (\<lambda>c. c \<noteq> CHR ''/'') (dropWhile (\<lambda>c. c = CHR ''/'') (rev p)))"

definition path_suffix :: "string \<Rightarrow> string" where
  "path_suffix p =
     (let name = path_name p;
          after = takeWhile (\<lambda>c. c \<noteq> CHR ''.'') (rev name)
      in if CHR ''.'' \<in> set name \<and> after \<noteq> [] \<and> length after + 1 < length name
         then CHR ''.'' # rev after else [])"

section \<open>Configuration (config.py)\<close>

text \<open>Directories are written relative to the directory of the backend.\<close>

definition UPLOADS_DIR :: string where
  "UPLOADS_DIR = ''storage/uploads''"

definition OUTPUTS_DIR :: string where
  "OUTPUTS_DIR = ''storage/outputs''"

definition MAX_UPLOAD_SIZE :: nat where
  "MAX_UPLOAD_SIZE = 500 * 1024 * 1024"

definition ALLOWED_VIDEO_EXTENSIONS :: "string list" where
  "ALLOWED_VIDEO_EXTENSIONS = [''.mp4'', ''.mkv'', ''.avi'', ''.mov'', ''.webm'']"

section \<open>Subtitles (services/transcription.py)\<close>

text \<open>Python's \<open>x // m\<close> and \<open>x % m\<close> on floats, for a positive \<open>m\<close>.\<close>

definition py_floordiv :: "rat \<Rightarrow> rat \<Rightarrow> int" where
  "py_floordiv x m = \<lfloor>x / m\<rfloor>"

definition py_mod :: "rat \<Rightarrow> rat \<Rightarrow> rat" where
  "py_mod x m = x - m * of_int \<lfloor>x / m\<rfloor>"

definition seconds_to_srt_time :: "rat \<Rightarrow> string" where
  "seconds_to_srt_time seconds =
     (let hours = py_floordiv seconds 3600;
          minutes = py_floordiv (py_mod seconds 3600) 60;
          secs = py_int (py_mod seconds 60);
          millis = py_int (py_mod seconds 1 * 1000)
      in format_0d 2 hours @ '':'' @ format_0d 2 minutes @ '':'' @ format_0d 2 secs
         @ '','' @ format_0d 3 millis)"

definition segments_to_srt :: "segment list \<Rightarrow> string" where
  "segments_to_srt segs =
     join ''\<newline>''
       (concat (map (\<lambda>(i, seg).
                  [digits i,
                   seconds_to_srt_time (seg_start seg) @ '' --> '' @ seconds_to_srt_time (seg_end seg),
                   seg_text seg,
                   [] ])
                (enumerate 1 segs)))"

text \<open>A decimal digit, for the shape \<open>HH:MM:SS,mmm\<close> of a time.\<close>

definition is_digit :: "char \<Rightarrow> bool" where
  "is_digit c = (c \<in> set ''0123456789'')"

text \<open>
  The block of one subtitle as the specification describes the export format, without
  the blank line that follows it: the index line, the time line and the text line.
\<close>

definition srt_block :: "nat \<Rightarrow> segment \<Rightarrow> string" where
  "srt_block i seg =
     digits i @ ''\<newline>''
     @ seconds_to_srt_time (seg_start seg) @ '' --> '' @ seconds_to_srt_time (seg_end seg)
     @ ''\<newline>''
     @ seg_text seg @ ''\<newline>''"

section \<open>Jobs (models/schemas.py, routers/dubbing.py)\<close>

datatype JobStatus =
    PENDING | UPLOADING | TRANSCRIBING | TRANSCRIBED | GENERATING_VOICE
  | VOICE_GENERATED | MERGING | COMPLETED | FAILED

record transcript_dict =
  language :: string
  full_text :: string
  segments :: "segment list"
  srt :: "string option"

record voice_settings_dict =
  lang_code :: string
  voice :: string
  speed :: rat

text \<open>
  A job is a dict. The keys \<open>audio_path\<close>, \<open>voiceover_path\<close>, \<open>voice_settings\<close> and
  \<open>output_path\<close> are absent until a stage stores them; an absent key and the value
  \<open>None\<close> are both \<open>None\<close> here. The job's key \<open>audio_path\<close> is the field
  \<open>extracted_audio_path\<close>. A time is a number of clock ticks.
\<close>

record job =
  job_id :: string
  status :: JobStatus
  progress :: int
  message :: string
  created_at :: nat
  updated_at :: nat
  video_filename :: string
  video_path :: string
  transcript :: "transcript_dict option"
  output_url :: "string option"
  error :: "string option"
  extracted_audio_path :: "string option"
  voiceover_path :: "string option"
  voice_settings :: "voice_settings_dict option"
  output_path :: "string option"

type_synonym job_table = "string \<Rightarrow> job option"

text \<open>The keyword arguments that the calls of \<open>update_job\<close> pass.\<close>

datatype field =
    Status JobStatus
  | Progress int
  | Message string
  | Transcript transcript_dict
  | Audio_path string
  | Error string
  | Voiceover_path string
  | Voice_settings voice_settings_dict
  | Output_path string
  | Output_url string

fun set_field :: "field \<Rightarrow> job \<Rightarrow> job" where
  "set_field (Status s) j = j\<lparr>status := s\<rparr>"
| "set_field (Progress p) j = j\<lparr>progress := p\<rparr>"
| "set_field (Message m) j = j\<lparr>message := m\<rparr>"
| "set_field (Transcript t) j = j\<lparr>transcript := Some t\<rparr>"
| "set_field (Audio_path p) j = j\<lparr>extracted_audio_path := Some p\<rparr>"
| "set_field (Error e) j = j\<lparr>error := Some e\<rparr>"
| "set_field (Voiceover_path p) j = j\<lparr>voiceover_path := Some p\<rparr>"
| "set_field (Voice_settings v) j = j\<lparr>voice_settings := Some v\<rparr>"
| "set_field (Output_path p) j = j\<lparr>output_path := Some p\<rparr>"
| "set_field (Output_url u) j = j\<lparr>output_url := Some u\<rparr>"

text \<open>\<open>get_job\<close> (line 32) raises 404 for an unknown id.\<close>

definition get_job :: "job_table \<Rightarrow> string \<Rightarrow> py_error + job" where
  "get_job jobs jid =
     (case jobs jid of
        None \<Rightarrow> Inl (HTTPException 404 ''Job not found'')
      | Some j \<Rightarrow> Inr j)"

text \<open>
  \<open>update_job\<close> (line 39), with the time that \<open>datetime.utcnow()\<close> returns as
  \<open>now\<close>. The call returns \<open>None\<close> and has no \<open>raise\<close>: the outcome is always
  \<open>Inr ()\<close>, next to the table after the call.
\<close>

definition update_job ::
  "string \<Rightarrow> field list \<Rightarrow> nat \<Rightarrow> job_table \<Rightarrow> (py_error + unit) \<times> job_table" where
  "update_job jid kwargs now jobs =
     (case jobs jid of
        None \<Rightarrow> (Inr (), jobs)
      | Some j \<Rightarrow> (Inr (), jobs(jid \<mapsto> (fold set_field kwargs j)\<lparr>updated_at := now\<rparr>)))"

text \<open>
  Every call of \<open>update_job\<close> in routers/dubbing.py, by its line: what it passes is
  \<open>kwargs\<close> of the call.
\<close>

datatype update_call =
    Transcription_started
  | Extracting_audio
  | Transcribing_audio
  | Generating_srt
  | Transcription_complete transcript_dict string
  | Transcription_failed string
  | Transcript_edited transcript_dict
  | Voice_started
  | Initializing_tts
  | Generating_segment nat nat
  | Concatenating
  | Voice_complete string voice_settings_dict
  | Voice_failed string
  | Merge_started
  | Merging_audio
  | Merge_complete string string
  | Merge_failed string

text \<open>Line 358: the progress written before segment \<open>i\<close> of \<open>total_segments\<close>.\<close>

definition segment_progress :: "nat \<Rightarrow> nat \<Rightarrow> int" where
  "segment_progress i total_segments =
     20 + py_int (of_nat i / of_nat total_segments * 60)"

fun kwargs :: "update_call \<Rightarrow> field list" where
  "kwargs Transcription_started =
     [Status TRANSCRIBING, Progress 10, Message ''Starting transcription...'']"
| "kwargs Extracting_audio = [Progress 20, Message ''Extracting audio...'']"
| "kwargs Transcribing_audio = [Progress 40, Message ''Transcribing audio...'']"
| "kwargs Generating_srt = [Progress 80, Message ''Generating SRT...'']"
| "kwargs (Transcription_complete t audio) =
     [Status TRANSCRIBED, Progress 100, Message ''Transcription complete'',
      Transcript t, Audio_path audio]"
| "kwargs (Transcription_failed e) =
     [Status FAILED, Error e, Message ''Transcription failed'']"
| "kwargs (Transcript_edited t) = [Transcript t]"
| "kwargs Voice_started =
     [Status GENERATING_VOICE, Progress 10, Message ''Starting voice generation...'']"
| "kwargs Initializing_tts = [Progress 20, Message ''Initializing TTS...'']"
| "kwargs (Generating_segment i total_segments) =
     [Progress (segment_progress i total_segments),
      Message (''Generating segment '' @ digits (i + 1) @ ''/'' @ digits total_segments @ ''...'')]"
| "kwargs Concatenating = [Progress 85, Message ''Concatenating audio segments...'']"
| "kwargs (Voice_complete path settings) =
     [Status VOICE_GENERATED, Progress 100, Message ''Voice generation complete'',
      Voiceover_path path, Voice_settings settings]"
| "kwargs (Voice_failed e) =
     [Status FAILED, Error e, Message ''Voice generation failed'']"
| "kwargs Merge_started =
     [Status MERGING, Progress 10, Message ''Starting video merge...'']"
| "kwargs Merging_audio = [Progress 30, Message ''Merging audio with video...'']"
| "kwargs (Merge_complete path url) =
     [Status COMPLETED, Progress 100, Message ''Dubbing complete!'',
      Output_path path, Output_url url]"
| "kwargs (Merge_failed e) =
     [Status FAILED, Error e, Message ''Video merge failed'']"

text \<open>The job table after a call of \<open>update_job\<close> at one of these places.\<close>

definition updated :: "string \<Rightarrow> update_call \<Rightarrow> nat \<Rightarrow> job_table \<Rightarrow> job_table" where
  "updated jid call now jobs = snd (update_job jid (kwargs call) now jobs)"

text \<open>The state of the service: the job table and the files.\<close>

record world =
  jobs :: job_table
  files :: filesystem

subsection \<open>Upload (line 82)\<close>

record upload_response =
  response_job_id :: string
  response_filename :: string
  size_bytes :: nat
  response_message :: string

text \<open>The job entry created at line 112.\<close>

definition new_job :: "string \<Rightarrow> string \<Rightarrow> string \<Rightarrow> nat \<Rightarrow> job" where
  "new_job jid filename file_path now =
     \<lparr>job_id = jid, status = PENDING, progress = 0,
      message = ''Video uploaded successfully'',
      created_at = now, updated_at = now,
      video_filename = filename, video_path = file_path,
      transcript = None, output_url = None, error = None,
      extracted_audio_path = None, voiceover_path = None, voice_settings = None,
      output_path = None\<rparr>"

text \<open>
  \<open>upload_video\<close>, with the uploaded file's name and content, the identifier that
  \<open>uuid.uuid4()\<close> returns and the time. The first error text lists the allowed
  extensions in the order of a Python set, which is not fixed; here it is the order
  of config.py.
\<close>

definition upload_video ::
  "string \<Rightarrow> nat list \<Rightarrow> string \<Rightarrow> nat \<Rightarrow> world \<Rightarrow> (py_error + upload_response) \<times> world" where
  "upload_video filename content uuid4 now st =
     (let ext = lower (path_suffix filename)
      in if ext \<notin> set ALLOWED_VIDEO_EXTENSIONS
         then (Inl (HTTPException 400
                 (''Invalid file type. Allowed: '' @ join '', '' ALLOWED_VIDEO_EXTENSIONS)), st)
         else
           let jid = uuid4;
               job_dir = path_join UPLOADS_DIR jid;
               file_path = path_join job_dir (''original'' @ ext)
           in if MAX_UPLOAD_SIZE < length content
              then (Inl (HTTPException 400
                      (''File too large. Maximum size: ''
                         @ digits (MAX_UPLOAD_SIZE div (1024 * 1024)) @ ''MB'')), st)
              else
                (Inr \<lparr>response_job_id = jid, response_filename = filename,
                       size_bytes = length content,
                       response_message = ''Video uploaded successfully. Ready for transcription.''\<rparr>,
                 st\<lparr>jobs := (jobs st)(jid \<mapsto> new_job jid filename file_path now),
                    files := (files st)(file_path \<mapsto> Blob content)\<rparr>))"

subsection \<open>Voice generation request (line 299)\<close>

record generate_voice_request =
  language_code :: string
  request_voice :: string
  request_speed :: rat

text \<open>The work handed to the background tasks.\<close>

datatype task = Run_voice_generation string "segment list" string string rat

definition generate_voice ::
  "string \<Rightarrow> generate_voice_request \<Rightarrow> nat \<Rightarrow> world \<Rightarrow> (py_error + task) \<times> world" where
  "generate_voice jid request now st =
     (case get_job (jobs st) jid of
        Inl e \<Rightarrow> (Inl e, st)
      | Inr j \<Rightarrow>
          if status j \<notin> set [TRANSCRIBED, VOICE_GENERATED]
          then (Inl (HTTPException 400
                  ''Transcription must be complete before generating voice''), st)
          else
            (case transcript j of
               None \<Rightarrow> (Inl (HTTPException 400 ''No transcript available''), st)
             | Some t \<Rightarrow>
                 (Inr (Run_voice_generation jid (segments t) (language_code request)
                         (request_voice request) (request_speed request)),
                  st\<lparr>jobs := updated jid Voice_started now (jobs st)\<rparr>)))"

section \<open>Speech synthesis (services/tts.py)\<close>

text \<open>
  The external engines are parameters. \<open>kokoro_create text voice speed lang\<close> is the
  speech engine's \<open>create\<close>: the samples and their rate, or \<open>Inl\<close> the message of the
  exception it raises. \<open>probe_duration path\<close> is the duration that
  \<open>VideoService().get_video_info(path)\<close> reports, or \<open>Inl\<close> the message of the
  exception raised on the way.
\<close>

record collaborators =
  kokoro_create :: "string \<Rightarrow> string \<Rightarrow> rat \<Rightarrow> string \<Rightarrow> string + (sample list \<times> int)"
  probe_duration :: "string \<Rightarrow> string + rat"

definition LANG_MAP :: "(string \<times> string) list" where
  "LANG_MAP = [(''a'', ''en-us''), (''b'', ''en-gb''), (''j'', ''ja''), (''z'', ''zh''),
               (''f'', ''fr-fr'')]"

text \<open>\<open>TTSService(lang_code).lang\<close>: \<open>LANG_MAP.get(lang_code, "en-us")\<close>.\<close>

definition tts_lang :: "string \<Rightarrow> string" where
  "tts_lang code = (case map_of LANG_MAP code of None \<Rightarrow> ''en-us'' | Some l \<Rightarrow> l)"

definition generate ::
  "collaborators \<Rightarrow> string \<Rightarrow> string \<Rightarrow> string \<Rightarrow> rat \<Rightarrow> py_error + (sample list \<times> int)" where
  "generate c lang text v sp =
     (case kokoro_create c text v sp lang of
        Inl msg \<Rightarrow> Inl (CollaboratorError msg)
      | Inr (audio, sample_rate) \<Rightarrow>
          if audio = [] then Inl ValueError else Inr (audio, sample_rate))"

definition generate_to_file ::
  "collaborators \<Rightarrow> string \<Rightarrow> string \<Rightarrow> string \<Rightarrow> string \<Rightarrow> rat \<Rightarrow> filesystem
     \<Rightarrow> py_error + (string \<times> filesystem)" where
  "generate_to_file c lang text out_path v sp fs =
     (case generate c lang text v sp of
        Inl e \<Rightarrow> Inl e
      | Inr (audio, sample_rate) \<Rightarrow> Inr (out_path, fs(out_path \<mapsto> Wav audio sample_rate)))"

text \<open>The entry appended for segment \<open>i\<close> once its audio is written.\<close>

definition synthesized :: "string \<Rightarrow> nat \<Rightarrow> segment \<Rightarrow> segment" where
  "synthesized dir i seg =
     \<lparr>seg_id = seg_id seg, seg_start = seg_start seg, seg_end = seg_end seg,
      audio_path = Some (path_join dir (''segment_'' @ format_0d 4 (int i) @ ''.wav'')),
      seg_text = strip (seg_text seg)\<rparr>"

text \<open>
  \<open>TTSService.generate_segments\<close> (line 132): the loop over \<open>enumerate(segments)\<close>,
  with the files and the result list as they grow.
\<close>

fun generate_segments_loop ::
  "collaborators \<Rightarrow> string \<Rightarrow> string \<Rightarrow> string \<Rightarrow> rat \<Rightarrow> (nat \<times> segment) list
     \<Rightarrow> filesystem \<times> segment list \<Rightarrow> filesystem \<times> segment list" where
  "generate_segments_loop c lang dir v sp [] acc = acc"
| "generate_segments_loop c lang dir v sp ((i, seg) # rest) (fs, results) =
     (let text = strip (seg_text seg)
      in if text = [] then generate_segments_loop c lang dir v sp rest (fs, results)
         else
           (case generate_to_file c lang text
                   (path_join dir (''segment_'' @ format_0d 4 (int i) @ ''.wav'')) v sp fs of
              Inl e \<Rightarrow> generate_segments_loop c lang dir v sp rest (fs, results)
            | Inr (p, fs') \<Rightarrow>
                generate_segments_loop c lang dir v sp rest
                  (fs', results @ [synthesized dir i seg])))"

definition generate_segments ::
  "collaborators \<Rightarrow> string \<Rightarrow> segment list \<Rightarrow> string \<Rightarrow> string \<Rightarrow> rat \<Rightarrow> filesystem
     \<Rightarrow> filesystem \<times> segment list" where
  "generate_segments c lang segs output_dir v sp fs =
     generate_segments_loop c lang output_dir v sp (enumerate 0 segs) (fs, [])"

section \<open>Voice generation stage (routers/dubbing.py, line 336)\<close>

text \<open>
  The text of an exception, \<open>str(e)\<close>. The texts that numpy and soundfile give are
  not modelled; the name of the exception stands for them.
\<close>

fun str_of_error :: "py_error \<Rightarrow> string" where
  "str_of_error ValueError = ''ValueError''"
| "str_of_error IndexError = ''IndexError''"
| "str_of_error ZeroDivisionError = ''ZeroDivisionError''"
| "str_of_error OverflowError = ''OverflowError''"
| "str_of_error KeyError = ''KeyError''"
| "str_of_error LibsndfileError = ''LibsndfileError''"
| "str_of_error (CollaboratorError msg) = msg"
| "str_of_error (HTTPException code detail) = detail"

text \<open>
  The loop at line 357. Each round first writes the progress, then skips a segment
  whose stripped text is empty, then synthesizes; a synthesis that raises is logged
  and the loop goes on.
\<close>

fun voice_loop ::
  "collaborators \<Rightarrow> string \<Rightarrow> string \<Rightarrow> string \<Rightarrow> string \<Rightarrow> rat \<Rightarrow> nat \<Rightarrow> nat
     \<Rightarrow> (nat \<times> segment) list \<Rightarrow> world \<times> segment list \<Rightarrow> world \<times> segment list" where
  "voice_loop c jid dir lang v sp total_segments now [] acc = acc"
| "voice_loop c jid dir lang v sp total_segments now ((i, seg) # rest) (st, generated_segments) =
     (let st1 = st\<lparr>jobs := updated jid (Generating_segment i total_segments) now (jobs st)\<rparr>;
          text = strip (seg_text seg)
      in if text = []
         then voice_loop c jid dir lang v sp total_segments now rest (st1, generated_segments)
         else
           (case generate_to_file c lang text
                   (path_join dir (''segment_'' @ format_0d 4 (int i) @ ''.wav'')) v sp (files st1) of
              Inl e \<Rightarrow>
                voice_loop c jid dir lang v sp total_segments now rest (st1, generated_segments)
            | Inr (p, fs') \<Rightarrow>
                voice_loop c jid dir lang v sp total_segments now rest
                  (st1\<lparr>files := fs'\<rparr>, generated_segments @ [synthesized dir i seg])))"

text \<open>
  \<open>run_voice_generation\<close>. Any exception that reaches the outer handler marks the
  job as failed: an unknown job id (\<open>KeyError\<close>), a failing probe of the video, a
  failing assembly.
\<close>

definition run_voice_generation ::
  "collaborators \<Rightarrow> string \<Rightarrow> segment list \<Rightarrow> string \<Rightarrow> string \<Rightarrow> rat \<Rightarrow> nat \<Rightarrow> world \<Rightarrow> world" where
  "run_voice_generation c jid segs code v sp now st =
     (case jobs st jid of
        None \<Rightarrow> st\<lparr>jobs := updated jid (Voice_failed (str_of_error KeyError)) now (jobs st)\<rparr>
      | Some j \<Rightarrow>
          let job_dir = path_parent (video_path j);
              segments_dir = path_join job_dir ''segments'';
              st1 = st\<lparr>jobs := updated jid Initializing_tts now (jobs st)\<rparr>;
              (st2, generated_segments) =
                 voice_loop c jid segments_dir (tts_lang code) v sp (length segs) now
                   (enumerate 0 segs) (st1, []);
              st3 = st2\<lparr>jobs := updated jid Concatenating now (jobs st2)\<rparr>
          in case probe_duration c (video_path j) of
               Inl msg \<Rightarrow> st3\<lparr>jobs := updated jid (Voice_failed msg) now (jobs st3)\<rparr>
             | Inr duration \<Rightarrow>
                 let output_audio = path_join job_dir ''voiceover.wav''
                 in case concatenate_audio_with_timing (files st3) generated_segments duration
                           output_audio DEFAULT_SAMPLE_RATE of
                      Inl e \<Rightarrow>
                        st3\<lparr>jobs := updated jid (Voice_failed (str_of_error e)) now (jobs st3)\<rparr>
                    | Inr (p, fs') \<Rightarrow>
                        st3\<lparr>files := fs',
                            jobs := updated jid
                              (Voice_complete output_audio
                                 \<lparr>lang_code = code, voice = v, speed = sp\<rparr>) now (jobs st3)\<rparr>)"

section \<open>The writes to the job table, in any order\<close>

text \<open>
  A job table changes only where line 112 stores a new job and where \<open>update_job\<close> is
  called. An event is one such write. The loop at line 357 runs over
  \<open>enumerate(segments)\<close> with \<open>total_segments = len(segments)\<close>, so its write happens
  only with \<open>i < total_segments\<close>.
\<close>

datatype event =
    Job_created string string string nat
  | Job_updated string update_call nat

fun occurs :: "update_call \<Rightarrow> bool" where
  "occurs (Generating_segment i total_segments) = (i < total_segments)"
| "occurs call = True"

fun step :: "event \<Rightarrow> job_table \<Rightarrow> job_table" where
  "step (Job_created jid filename file_path now) tbl =
     tbl(jid \<mapsto> new_job jid filename file_path now)"
| "step (Job_updated jid call now) tbl =
     (if occurs call then updated jid call now tbl else tbl)"

text \<open>The table after a sequence of writes, from the empty table of a fresh process.\<close>

definition table_after :: "event list \<Rightarrow> job_table" where
  "table_after events = fold step events (\<lambda>_. None)"

section \<open>Partial synthesis, as the specification words it\<close>

text \<open>
  A segment survives synthesis when its stripped text is not empty and the synthesis
  of that text does not raise. The result list of the driver is to hold the entries
  of the surviving segments, in input order.
\<close>

definition survives :: "collaborators \<Rightarrow> string \<Rightarrow> string \<Rightarrow> rat \<Rightarrow> segment \<Rightarrow> bool" where
  "survives c lang v sp seg =
     (strip (seg_text seg) \<noteq> [] \<and> \<not> isl (generate c lang (strip (seg_text seg)) v sp))"

definition surviving_segments ::
  "collaborators \<Rightarrow> string \<Rightarrow> string \<Rightarrow> string \<Rightarrow> rat \<Rightarrow> segment list \<Rightarrow> segment list" where
  "surviving_segments c lang dir v sp segs =
     map (\<lambda>(i, seg). synthesized dir i seg)
       (filter (\<lambda>(i, seg). survives c lang v sp seg) (enumerate 0 segs))"

section \<open>A job of five segments\<close>

text \<open>
  Inputs for the examples below: a speech engine that raises on the text \<open>two\<close> and
  returns two samples at 24000 Hz for any other text, a video of one millisecond, five
  segments, and a state with one uploaded job.
\<close>

definition example_collaborators :: collaborators where
  "example_collaborators =
     \<lparr>kokoro_create = (\<lambda>text v sp lang.
          if text = ''two'' then Inl ''synthesis failed'' else Inr ([1, 2], 24000)),
      probe_duration = (\<lambda>p. Inr (1 / 1000))\<rparr>"

definition example_segments :: "segment list" where
  "example_segments =
     [\<lparr>seg_id = 1, seg_start = 0, seg_end = 1 / 6000, audio_path = None, seg_text = ''one''\<rparr>,
      \<lparr>seg_id = 2, seg_start = 1 / 6000, seg_end = 2 / 6000, audio_path = None, seg_text = ''two''\<rparr>,
      \<lparr>seg_id = 3, seg_start = 2 / 6000, seg_end = 3 / 6000, audio_path = None,
        seg_text = '' three ''\<rparr>,
      \<lparr>seg_id = 4, seg_start = 3 / 6000, seg_end = 4 / 6000, audio_path = None, seg_text = ''four''\<rparr>,
      \<lparr>seg_id = 5, seg_start = 4 / 6000, seg_end = 5 / 6000, audio_path = None, seg_text = ''five''\<rparr>]"

definition example_job :: job where
  "example_job = new_job ''j1'' ''talk.mp4'' ''storage/uploads/j1/original.mp4'' 7"

definition example_world :: world where
  "example_world = \<lparr>jobs = (\<lambda>_. None)(''j1'' \<mapsto> example_job), files = (\<lambda>_. None)\<rparr>"

section \<open>Properties of the timeline assembler\<close>

lemma slice_index_le: "slice_index i n \<le> n"
  by (auto simp: slice_index_def max_def)

lemma slice_index_int: "slice_index (int k) n = min k n"
  by (simp add: slice_index_def)

lemma length_overwrite: "a + length vals \<le> length out \<Longrightarrow> length (overwrite out a vals) = length out"
  by (simp add: overwrite_def)

lemma nth_overwrite_inside:
  "a \<le> length out \<Longrightarrow> j < length vals \<Longrightarrow> overwrite out a vals ! (a + j) = vals ! j"
  by (simp add: overwrite_def nth_append)



lemma length_slice_assign:
  assumes "slice_assign out lo hi src = Inr out'"
  shows "length out' = length out"
proof -
  let ?a = "slice_index lo (length out)"
  let ?b = "slice_index hi (length out)"
  have "?a + (?b - ?a) \<le> length out"
    using slice_index_le [of lo "length out"] slice_index_le [of hi "length out"] by arith
  then show ?thesis
    using assms
    by (auto simp: slice_assign_def Let_def length_overwrite split: if_splits)
qed

lemma length_store_clip:
  "store_clip out s clip = Inr out' \<Longrightarrow> length out' = length out"
  by (auto simp: store_clip_def Let_def dest: length_slice_assign)

lemma length_place_clip:
  "place_clip out t r clip = Inr out' \<Longrightarrow> length out' = length out"
  by (auto simp: place_clip_def dest: length_store_clip split: sum.splits)

lemma length_write_segment:
  "write_segment fs r out seg = Inr out' \<Longrightarrow> length out' = length out"
  by (auto simp: write_segment_def dest: length_place_clip
      split: option.splits if_splits fsnode.splits sum.splits)

lemma length_write_segments:
  "write_segments fs r out segs = Inr out' \<Longrightarrow> length out' = length out"
proof (induction segs arbitrary: out)
  case Nil
  then show ?case by simp
next
  case (Cons seg segs)
  then show ?case
    by (auto split: sum.splits dest: length_write_segment)
qed

lemma assemble_timeline_unfold:
  assumes "assemble_timeline fs segs d r = Inr out"
  shows "\<exists>n. int_of_product d r = Inr (int n)
             \<and> write_segments fs r (replicate n 0) segs = Inr out"
proof -
  from assms obtain total where total: "int_of_product d r = Inr total" and "0 \<le> total"
    and "write_segments fs r (replicate (nat total) 0) segs = Inr out"
    by (auto simp: assemble_timeline_def split: sum.splits if_splits)
  then show ?thesis
    by (intro exI [of _ "nat total"]) simp
qed

lemma length_assemble_timeline:
  assumes "assemble_timeline fs segs d r = Inr out"
  shows "int_of_product d r = Inr (int (length out))"
proof -
  from assemble_timeline_unfold [OF assms] obtain n where
    n: "int_of_product d r = Inr (int n)" and
    w: "write_segments fs r (replicate n 0) segs = Inr out"
    by blast
  from w have "length out = n"
    by (auto dest: length_write_segments)
  with n show ?thesis by simp
qed


subsection \<open>What a store changes\<close>

text \<open>
  The destination of a store is never longer than its source. So a source of one
  sample is broadcast over an empty destination only, and a store that does not raise
  copies a prefix of the clip onto the destination range.
\<close>

lemma dest_not_longer_than_source:
  "slice_index (min (s + int L) (int N)) N - slice_index s N
     \<le> slice_index (min (s + int L) (int N) - s) L"
  by (auto simp: slice_index_def min_def max_def)

lemma store_clip_cases:
  assumes "store_clip out s clip = Inr out'"
      and "dest_range (length out) s (length clip) = (a, b)"
  shows "out' = overwrite out a (take (b - a) clip)" and "b - a \<le> length clip"
    and "a \<le> length out" and "a + (b - a) \<le> length out"
proof -
  let ?N = "length out"
  let ?e = "min (s + int (length clip)) (int ?N)"
  let ?src = "slice_prefix clip (?e - s)"
  have a: "a = slice_index s ?N" and b: "b = slice_index ?e ?N"
    using assms(2) by (simp_all add: dest_range_def)
  have src: "?src = take (slice_index (?e - s) (length clip)) clip"
    by (simp add: slice_prefix_def)
  have len_src: "length ?src = slice_index (?e - s) (length clip)"
    using slice_index_le [of "?e - s" "length clip"] by (simp add: src)
  have le: "b - a \<le> length ?src"
    unfolding a b len_src by (rule dest_not_longer_than_source)
  show "a \<le> length out"
    unfolding a by (rule slice_index_le)
  show "a + (b - a) \<le> length out"
    using slice_index_le [of s ?N] slice_index_le [of ?e ?N] unfolding a b by arith
  show "b - a \<le> length clip"
    using le slice_index_le [of "?e - s" "length clip"] by (simp add: len_src)
  from assms(1) have assign: "slice_assign out s ?e ?src = Inr out'"
    by (simp add: store_clip_def Let_def)
  show "out' = overwrite out a (take (b - a) clip)"
  proof (cases "length ?src = b - a")
    case True
    then have "slice_index (?e - s) (length clip) = b - a"
      by (simp only: len_src)
    then have "?src = take (b - a) clip"
      by (simp only: src)
    with assign True show ?thesis
      by (simp add: slice_assign_def Let_def a b)
  next
    case False
    with assign have one: "length ?src = 1"
      and out': "out' = overwrite out a (replicate (b - a) (hd ?src))"
      by (auto simp: slice_assign_def Let_def a b split: if_splits)
    from le one False have "b - a = 0" by simp
    with out' show ?thesis by simp
  qed
qed

lemma store_clip_written:
  assumes "store_clip out s clip = Inr out'"
      and "dest_range (length out) s (length clip) = (a, b)"
      and "a \<le> i" and "i < b"
  shows "out' ! i = clip ! (i - a)"
proof -
  note c = store_clip_cases [OF assms(1,2)]
  have "i - a < length (take (b - a) clip)"
    using assms(3,4) c(2) by simp
  then have "overwrite out a (take (b - a) clip) ! (a + (i - a)) = take (b - a) clip ! (i - a)"
    using c(3) by (intro nth_overwrite_inside)
  then show ?thesis
    using assms(3,4) by (simp add: c(1))
qed


text \<open>
  A clip whose start sample is at or after the end of the buffer leaves the buffer
  as it is, when the store does not raise.
\<close>

lemma store_clip_late:
  assumes "int (length out) \<le> s" and "store_clip out s clip = Inr out'"
  shows "out' = out"
proof -
  have "dest_range (length out) s (length clip) = (length out, length out)"
    using assms(1) by (simp add: dest_range_def slice_index_def)
  from store_clip_cases(1) [OF assms(2) this] show ?thesis
    by (simp add: overwrite_def)
qed

text \<open>The destination range of a start sample inside the buffer.\<close>

lemma dest_range_inside:
  assumes "0 \<le> s" and "s \<le> int N"
  shows "dest_range N s L = (nat s, min (nat s + L) N)"
  using assms by (auto simp: dest_range_def slice_index_def min_def)

subsection \<open>What a segment changes\<close>

lemma write_segment_skips:
  "clip_of fs r seg = None \<Longrightarrow> write_segment fs r out seg = Inr out' \<Longrightarrow> out' = out"
  by (auto simp: write_segment_def clip_of_def
      split: option.splits if_splits fsnode.splits sum.splits)

lemma write_segment_stores:
  assumes "clip_of fs r seg = Some clip" and "write_segment fs r out seg = Inr out'"
  shows "\<exists>s. int_of_product (seg_start seg) r = Inr s \<and> store_clip out s clip = Inr out'"
  using assms
  by (auto simp: write_segment_def clip_of_def place_clip_def
      split: option.splits if_splits fsnode.splits sum.splits)



lemma write_segment_late:
  assumes "int_of_product (seg_start seg) r = Inr s" and "int (length out) \<le> s"
      and "write_segment fs r out seg = Inr out'"
  shows "out' = out"
proof (cases "clip_of fs r seg")
  case None
  from write_segment_skips [OF None assms(3)] show ?thesis .
next
  case (Some clip)
  from write_segment_stores [OF Some assms(3)] assms(1) have "store_clip out s clip = Inr out'"
    by auto
  with assms(2) show ?thesis by (intro store_clip_late)
qed

subsection \<open>Truncation and rounding\<close>

lemma py_int_nonneg: "0 \<le> x \<Longrightarrow> 0 \<le> py_int x"
  by (simp add: py_int_def)

lemma py_int_le: "0 \<le> x \<Longrightarrow> x \<le> of_int k \<Longrightarrow> py_int x \<le> k"
  by (simp add: py_int_def floor_le_iff)

lemma py_int_less: "0 \<le> x \<Longrightarrow> x < of_int k \<Longrightarrow> py_int x < k"
  by (simp add: py_int_def floor_less_iff)

lemma pow2_pos: "0 < pow2 e"
  by (simp add: pow2_def)

lemma round_half_even_nonneg: "0 \<le> x \<Longrightarrow> 0 \<le> round_half_even x"
  by (simp add: round_half_even_def Let_def)

lemma fl_nonneg:
  assumes "0 \<le> x"
  shows "0 \<le> fl x"
proof (cases "x = 0")
  case True
  then show ?thesis by (simp add: fl_def)
next
  case False
  define e where "e = max (ilog2 \<bar>x\<bar> - 52) (- 1074)"
  have "0 \<le> x / pow2 e"
    using assms pow2_pos [of e] by simp
  then have "0 \<le> round_half_even (x / pow2 e)"
    by (rule round_half_even_nonneg)
  then have "0 \<le> of_int (round_half_even (x / pow2 e)) * pow2 e"
    using pow2_pos [of e] by simp
  then show ?thesis
    using False by (simp add: fl_def Let_def e_def)
qed

subsection \<open>Resampling\<close>

lemma length_linspace_indices:
  "linspace_indices stop num = Inr idx \<Longrightarrow> int (length idx) = num"
  by (auto simp: linspace_indices_def Let_def split: if_splits)

lemma linspace_indices_nonneg:
  assumes "0 \<le> stop" and "linspace_indices stop num = Inr idx"
  shows "list_all (\<lambda>i. 0 \<le> i) idx"
proof -
  let ?step = "fl (fl (of_int stop) / fl (of_int (num - 1)))"
  have stop: "(0::rat) \<le> fl (of_int stop)"
    using assms(1) by (intro fl_nonneg) simp
  have step: "0 \<le> ?step" if "1 < num"
  proof -
    have "(0::rat) \<le> fl (of_int (num - 1))"
      using that by (intro fl_nonneg) simp
    with stop have "0 \<le> fl (of_int stop) / fl (of_int (num - 1))"
      by (rule divide_nonneg_nonneg)
    then show ?thesis by (rule fl_nonneg)
  qed
  have pos: "0 \<le> py_int (fl (fl (of_nat i) * ?step))" if "1 < num" for i :: nat
  proof -
    have "(0::rat) \<le> fl (of_nat i)" by (intro fl_nonneg) simp
    then have "0 \<le> fl (of_nat i) * ?step"
      using step [OF that] by (rule mult_nonneg_nonneg)
    then have "0 \<le> fl (fl (of_nat i) * ?step)" by (rule fl_nonneg)
    then show ?thesis by (rule py_int_nonneg)
  qed
  have last: "0 \<le> py_int (fl (of_int stop))"
    using stop by (rule py_int_nonneg)
  show ?thesis
  proof (cases "num = 0 \<or> num = 1")
    case True
    with assms(2) show ?thesis
      by (auto simp: linspace_indices_def split: if_splits)
  next
    case False
    with assms(2) have big: "1 < num" and
      idx: "idx = map (\<lambda>i. py_int (fl (fl (of_nat i) * ?step))) [0..<nat (num - 1)]
                  @ [py_int (fl (of_int stop))]"
      by (auto simp: linspace_indices_def Let_def split: if_splits)
    show ?thesis
      unfolding idx using pos [OF big] last by (simp add: list_all_iff)
  qed
qed

lemma fancy_index_nonneg:
  assumes "fancy_index xs idx = Inr ys" and "list_all (\<lambda>i. 0 \<le> i) idx"
  shows "ys = map (\<lambda>i. xs ! nat i) idx" and "list_all (\<lambda>i. 0 \<le> i \<and> i < int (length xs)) idx"
proof -
  from assms(1) have range: "list_all (\<lambda>i. - int (length xs) \<le> i \<and> i < int (length xs)) idx"
    and ys: "ys = map (\<lambda>i. xs ! nat (if i < 0 then i + int (length xs) else i)) idx"
    by (auto simp: fancy_index_def split: if_splits)
  show "list_all (\<lambda>i. 0 \<le> i \<and> i < int (length xs)) idx"
    using range assms(2) by (auto simp: list_all_iff)
  show "ys = map (\<lambda>i. xs ! nat i) idx"
    unfolding ys using assms(2) by (auto simp: list_all_iff)
qed

text \<open>
  A resampling that does not raise: the length is the truncated float product, the
  samples are picked at the truncated positions, which are indices of the clip.
\<close>

lemma resample_result:
  assumes "resample audio sr r = Inr clip"
  shows "\<exists>ratio indices.
           true_divide r sr = Inr ratio
         \<and> int_of_product ratio (int (length audio)) = Inr (int (length clip))
         \<and> linspace_indices (int (length audio) - 1) (int (length clip)) = Inr indices
         \<and> list_all (\<lambda>i. 0 \<le> i \<and> i < int (length audio)) indices
         \<and> clip = map (\<lambda>i. audio ! nat i) indices"
proof -
  from assms obtain ratio n indices where
    ratio: "true_divide r sr = Inr ratio" and
    n: "int_of_product ratio (int (length audio)) = Inr n" and
    lin: "linspace_indices (int (length audio) - 1) n = Inr indices" and
    pick: "fancy_index audio indices = Inr clip"
    by (auto simp: resample_def split: sum.splits)
  have nonneg: "list_all (\<lambda>i. 0 \<le> i) indices"
  proof (cases "audio = []")
    case True
    with pick have "indices = []"
      by (cases indices) (auto simp: fancy_index_def split: if_splits)
    then show ?thesis by simp
  next
    case False
    then have "0 \<le> int (length audio) - 1"
      by (cases audio) simp_all
    then show ?thesis using lin by (rule linspace_indices_nonneg)
  qed
  note f = fancy_index_nonneg [OF pick nonneg]
  have "int (length clip) = n"
    using length_linspace_indices [OF lin] by (simp add: f(1))
  then show ?thesis
    using ratio n lin f by blast
qed

subsection \<open>Length of the assembled buffer\<close>

text \<open>
  C1 (as amended). Whenever the assembler returns a buffer, the buffer has exactly
  \<open>int(total_duration * sample_rate)\<close> samples: the float product of the source,
  truncated toward zero, not rounded.
\<close>

theorem assembled_length_truncated:
  "assemble_timeline fs segs total_duration sample_rate = Inr output_audio \<Longrightarrow>
   int_of_product total_duration sample_rate = Inr (int (length output_audio))"
  by (rule length_assemble_timeline)

text \<open>
  Two instances: a clip placed in a buffer of 1.125 seconds at 4 Hz, and a silent
  buffer for the double nearest to 0.011 seconds at 24000 Hz. The second product is
  below 264 and rounds to 264 as a float, so the buffer has 264 samples.
\<close>

theorem assembled_length_truncated_witness:
  "assemble_timeline ((\<lambda>_. None)(''a.wav'' \<mapsto> Wav [9, 8] 4))
       [\<lparr>seg_id = 0, seg_start = 1 / 4, seg_end = 3 / 4,
         audio_path = Some ''a.wav'', seg_text = ''hi''\<rparr>] (9 / 8) 4
     = Inr [0, 9, 8, 0]
   \<and> int_of_product (9 / 8) 4 = Inr (int (length [0, 9, 8, 0 :: sample]))
   \<and> assemble_timeline (\<lambda>_. None) [] (fl (11 / 1000)) 24000 = Inr (replicate 264 0)
   \<and> int_of_product (fl (11 / 1000)) 24000 = Inr (int (length (replicate 264 (0 :: sample))))
   \<and> py_int (fl (11 / 1000) * 24000) = 263"
proof -
  have h: "assemble_timeline ((\<lambda>_. None)(''a.wav'' \<mapsto> Wav [9, 8] 4))
       [\<lparr>seg_id = 0, seg_start = 1 / 4, seg_end = 3 / 4,
         audio_path = Some ''a.wav'', seg_text = ''hi''\<rparr>] (9 / 8) 4
     = Inr [0, 9, 8, 0]"
    by code_simp
  have g: "assemble_timeline (\<lambda>_. None) [] (fl (11 / 1000)) 24000 = Inr (replicate 264 0)"
    by code_simp
  have e: "py_int (fl (11 / 1000) * 24000) = 263"
    by code_simp
  show ?thesis
    by (intro conjI h g e assembled_length_truncated [OF h] assembled_length_truncated [OF g])
qed

text \<open>
  The claim as stated fails. A target of 7/65536 seconds at 24000 Hz is 2.56 samples:
  the buffer has 2 samples where rounding gives 3. A negative target duration gives
  no buffer at all.
\<close>

theorem assembled_length_rounded_counterexample:
  "assemble_timeline (\<lambda>_. None) [] (7 / 65536) 24000 = Inr [0, 0]
   \<and> spec_round (7 / 65536 * of_int 24000) = 3
   \<and> assemble_timeline (\<lambda>_. None) [] (- 1) 24000 = Inl ValueError"
  by code_simp

subsection \<open>A segment that starts after the end of the buffer\<close>

text \<open>
  C3. The assembler is claimed to complete whatever the segments are, and a segment
  that starts at or after the total duration to contribute nothing. A one-second
  buffer at 4 Hz and a four-sample clip that starts at 1.25 seconds: the start sample
  is 5, the end sample is cut to 4, the segment length is -1, so the source slice
  \<open>segment_audio[:-1]\<close> has three samples and the destination \<open>output_audio[5:4]\<close>
  has none. The store raises \<open>ValueError\<close>.
\<close>

theorem late_segment_raises:
  "assemble_timeline ((\<lambda>_. None)(''late.wav'' \<mapsto> Wav [1, 2, 3, 4] 4))
       [\<lparr>seg_id = 0, seg_start = 5 / 4, seg_end = 9 / 4,
         audio_path = Some ''late.wav'', seg_text = ''late''\<rparr>] 1 4
     = Inl ValueError"
  by code_simp

subsection \<open>Overlapping segments\<close>



subsection \<open>A resampled clip\<close>

text \<open>
  C2 (as amended). Take a clip whose rate \<open>sr\<close> differs from the output rate and that
  the assembler writes without raising. The clip is resampled to exactly
  \<open>int(len * (sample_rate / sr))\<close> samples, the float product of the source truncated
  toward zero. Its samples are the source samples at the positions of
  \<open>np.linspace(0, len - 1, new_length)\<close> truncated to indices (not the nearest
  indices), all of them indices of the source. The start sample is
  \<open>int(start * sample_rate)\<close>, truncated as well; when it is not negative, the
  resampled clip stands in the output buffer from that offset on, as far as the
  buffer reaches.
\<close>

theorem resampled_clip_truncated:
  assumes "audio_path seg = Some p" and "p \<noteq> []" and "fs p = Some (Wav segment_audio sr)"
      and "sr \<noteq> sample_rate"
      and "write_segment fs sample_rate output_audio seg = Inr output_audio'"
  shows "\<exists>ratio clip indices start_sample.
           true_divide sample_rate sr = Inr ratio
         \<and> int_of_product ratio (int (length segment_audio)) = Inr (int (length clip))
         \<and> linspace_indices (int (length segment_audio) - 1) (int (length clip)) = Inr indices
         \<and> list_all (\<lambda>i. 0 \<le> i \<and> i < int (length segment_audio)) indices
         \<and> clip = map (\<lambda>i. segment_audio ! nat i) indices
         \<and> int_of_product (seg_start seg) sample_rate = Inr start_sample
         \<and> (0 \<le> start_sample \<longrightarrow>
              (\<forall>j<length clip.
                  nat start_sample + j < length output_audio \<longrightarrow>
                  output_audio' ! (nat start_sample + j) = clip ! j))"
proof -
  from assms obtain clip where
    resampled: "resample segment_audio sr sample_rate = Inr clip" and
    placed: "place_clip output_audio (seg_start seg) sample_rate clip = Inr output_audio'"
    by (auto simp: write_segment_def load_clip_def split: sum.splits)
  from placed obtain start_sample where
    start: "int_of_product (seg_start seg) sample_rate = Inr start_sample" and
    stored: "store_clip output_audio start_sample clip = Inr output_audio'"
    by (auto simp: place_clip_def split: sum.splits)
  from resample_result [OF resampled] obtain ratio indices where
    r: "true_divide sample_rate sr = Inr ratio"
       "int_of_product ratio (int (length segment_audio)) = Inr (int (length clip))"
       "linspace_indices (int (length segment_audio) - 1) (int (length clip)) = Inr indices"
       "list_all (\<lambda>i. 0 \<le> i \<and> i < int (length segment_audio)) indices"
       "clip = map (\<lambda>i. segment_audio ! nat i) indices"
    by blast
  have written: "output_audio' ! (nat start_sample + j) = clip ! j"
    if "0 \<le> start_sample" and "j < length clip"
      and "nat start_sample + j < length output_audio" for j
  proof -
    have inside: "start_sample \<le> int (length output_audio)"
      using that by linarith
    note range = dest_range_inside [OF that(1) inside, of "length clip"]
    have lo: "nat start_sample \<le> nat start_sample + j"
      by simp
    have hi: "nat start_sample + j < min (nat start_sample + length clip) (length output_audio)"
      using that by simp
    from store_clip_written [OF stored range lo hi] show ?thesis
      by simp
  qed
  show ?thesis
    using r start written by blast
qed

text \<open>
  Four samples at 4 Hz written at 0.375 seconds into a buffer of nine samples at
  6 Hz: six samples from offset 2 on.
\<close>

theorem resampled_clip_truncated_witness:
  "(\<exists>ratio clip indices start_sample.
       true_divide 6 4 = Inr ratio
     \<and> int_of_product ratio (int (length [10, 20, 30, 40 :: sample])) = Inr (int (length clip))
     \<and> linspace_indices (int (length [10, 20, 30, 40 :: sample]) - 1) (int (length clip))
         = Inr indices
     \<and> list_all (\<lambda>i. 0 \<le> i \<and> i < int (length [10, 20, 30, 40 :: sample])) indices
     \<and> clip = map (\<lambda>i. [10, 20, 30, 40 :: sample] ! nat i) indices
     \<and> int_of_product
           (seg_start \<lparr>seg_id = 0, seg_start = 3 / 8, seg_end = 11 / 8,
                        audio_path = Some ''clip.wav'', seg_text = ''hello''\<rparr>) 6
         = Inr start_sample
     \<and> (0 \<le> start_sample \<longrightarrow>
          (\<forall>j<length clip.
              nat start_sample + j < length [0, 0, 0, 0, 0, 0, 0, 0, 0 :: sample] \<longrightarrow>
              [0, 0, 10, 10, 20, 20, 30, 40, 0 :: sample] ! (nat start_sample + j) = clip ! j)))
   \<and> load_clip [10, 20, 30, 40] 4 6 = Inr [10, 10, 20, 20, 30, 40]
   \<and> linspace_indices 3 6 = Inr [0, 0, 1, 1, 2, 3]
   \<and> int_of_product (3 / 8) 6 = Inr 2
   \<and> write_segment ((\<lambda>_. None)(''clip.wav'' \<mapsto> Wav [10, 20, 30, 40] 4)) 6
           [0, 0, 0, 0, 0, 0, 0, 0, 0]
           \<lparr>seg_id = 0, seg_start = 3 / 8, seg_end = 11 / 8,
            audio_path = Some ''clip.wav'', seg_text = ''hello''\<rparr>
       = Inr [0, 0, 10, 10, 20, 20, 30, 40, 0]"
proof -
  let ?fs = "(\<lambda>_. None)(''clip.wav'' \<mapsto> Wav [10, 20, 30, 40] 4)"
  let ?seg = "\<lparr>seg_id = 0, seg_start = 3 / 8, seg_end = 11 / 8,
            audio_path = Some ''clip.wav'', seg_text = ''hello''\<rparr>"
  let ?out = "[0, 0, 0, 0, 0, 0, 0, 0, 0 :: sample]"
  have h1: "audio_path ?seg = Some ''clip.wav''" by simp
  have h2: "''clip.wav'' \<noteq> []" by simp
  have h3: "?fs ''clip.wav'' = Some (Wav [10, 20, 30, 40] 4)" by simp
  have h4: "(4::int) \<noteq> 6" by simp
  have h5: "write_segment ?fs 6 ?out ?seg = Inr [0, 0, 10, 10, 20, 20, 30, 40, 0]"
    by code_simp
  have e1: "load_clip [10, 20, 30, 40] 4 6 = Inr [10, 10, 20, 20, 30, 40]" by code_simp
  have e2: "linspace_indices 3 6 = Inr [0, 0, 1, 1, 2, 3]" by code_simp
  have e3: "int_of_product (3 / 8) 6 = Inr 2" by code_simp
  note inst = resampled_clip_truncated [where seg = ?seg and p = "''clip.wav''" and fs = ?fs
      and segment_audio = "[10, 20, 30, 40]" and sr = 4 and sample_rate = 6
      and output_audio = ?out, OF h1 h2 h3 h4 h5]
  show ?thesis
    by (intro conjI inst e1 e2 e3 h5)
qed

text \<open>
  The claim as stated fails.
  \<^item> One sample at 4 Hz, placed at 0.25 seconds in a one-second buffer at 7 Hz: the
    clip is resampled to \<open>int(1.75) = 1\<close> sample where rounding gives 2, and it is
    written at sample \<open>int(1.75) = 1\<close> where rounding gives 2.
  \<^item> Five samples at 5 Hz resampled to 4 Hz: the third position, 2.67, gives index 2
    where the nearest index is 3.
  \<^item> A clip that starts at -0.5 seconds in a one-second buffer at 4 Hz has start
    sample -2: one resampled sample lands at position 2, and four resampled samples
    are not written at all, the store raises.
\<close>

theorem resampled_clip_rounded_counterexample:
  "load_clip [5] 4 7 = Inr [5]
   \<and> spec_round (of_nat (length [5 :: sample]) * (of_int 7 / of_int 4)) = 2
   \<and> assemble_timeline ((\<lambda>_. None)(''one.wav'' \<mapsto> Wav [5] 4))
        [\<lparr>seg_id = 0, seg_start = 1 / 4, seg_end = 1 / 2,
          audio_path = Some ''one.wav'', seg_text = ''a''\<rparr>] 1 7
       = Inr [0, 5, 0, 0, 0, 0, 0]
   \<and> spec_round (1 / 4 * of_int 7) = 2
   \<and> load_clip [10, 20, 30, 40, 50] 5 4 = Inr [10, 20, 30, 50]
   \<and> spec_round (2 * (4 / 3)) = 3
   \<and> assemble_timeline ((\<lambda>_. None)(''two.wav'' \<mapsto> Wav [5, 6] 8))
        [\<lparr>seg_id = 0, seg_start = - 1 / 2, seg_end = 1 / 2,
          audio_path = Some ''two.wav'', seg_text = ''a''\<rparr>] 1 4
       = Inr [0, 0, 5, 0]
   \<and> assemble_timeline ((\<lambda>_. None)(''four.wav'' \<mapsto> Wav [5, 6] 2))
        [\<lparr>seg_id = 0, seg_start = - 1 / 2, seg_end = 1 / 2,
          audio_path = Some ''four.wav'', seg_text = ''a''\<rparr>] 1 4
       = Inl ValueError"
  by code_simp

subsection \<open>Products and positions that rounding moves\<close>

text \<open>
  Where the exact value lies next to an integer, the float of the source decides:
  2.3 seconds at 24000 Hz are 55199 samples, 27 samples resampled from 3 Hz to 13 Hz
  are 116 samples, position 11 of 23 positions from 0 to 30 is index 14, and 0.29
  seconds at 100 Hz start at sample 28.
\<close>

lemma rounding_examples:
  "int_of_product (fl (23 / 10)) 24000 = Inr 55199
   \<and> true_divide 13 3 = Inr (fl (13 / 3))
   \<and> int_of_product (fl (13 / 3)) 27 = Inr 116
   \<and> map_sum id (\<lambda>idx. idx ! 11) (linspace_indices 30 23) = Inr 14
   \<and> int_of_product (fl (29 / 100)) 100 = Inr 28"
  by code_simp

section \<open>Properties of the subtitle renderer\<close>

lemma join_Cons: "join sep (x # xs) = (if xs = [] then x else x @ sep @ join sep xs)"
  by (cases xs) simp_all

lemma join_srt_lines:
  "join sep (concat (map (\<lambda>(i, seg). [a i, b seg, c seg, []]) ps))
     = join sep (map (\<lambda>(i, seg). a i @ sep @ b seg @ sep @ c seg @ sep) ps)"
proof (induction ps)
  case Nil
  then show ?case by simp
next
  case (Cons p ps)
  obtain i seg where p: "p = (i, seg)" by (cases p)
  show ?case
  proof (cases ps)
    case Nil
    then show ?thesis by (simp add: p)
  next
    case (Cons q qs)
    obtain i' seg' where q: "q = (i', seg')" by (cases q)
    from Cons.IH show ?thesis
      by (simp add: p Cons q join_Cons)
  qed
qed

subsection \<open>The shape of a time\<close>

lemma digit_char: "n < 10 \<Longrightarrow> is_digit (''0123456789'' ! n)"
  unfolding is_digit_def by (rule nth_mem) simp

lemma digits_are_digits: "list_all is_digit (digits n)"
proof (induction n rule: digits.induct)
  case (1 n)
  show ?case
  proof (cases "n < 10")
    case True
    then show ?thesis by (subst digits.simps) (simp add: digit_char)
  next
    case False
    then show ?thesis
      using 1 by (subst digits.simps) (simp add: digit_char)
  qed
qed

lemma length_digits_10: "n < 10 \<Longrightarrow> length (digits n) = 1"
  by (subst digits.simps) simp

lemma length_digits_100: "n < 100 \<Longrightarrow> length (digits n) \<le> 2"
  by (subst digits.simps) (simp add: length_digits_10)

lemma length_digits_1000: "n < 1000 \<Longrightarrow> length (digits n) \<le> 3"
proof -
  assume n: "n < 1000"
  then have "n div 10 < 100" by simp
  then have "length (digits (n div 10)) \<le> 2" by (rule length_digits_100)
  then show ?thesis by (subst digits.simps) (simp add: length_digits_10)
qed

lemma format_0d_shape:
  assumes "0 \<le> n" and "length (digits (nat n)) \<le> w"
  shows "length (format_0d w n) = w \<and> list_all is_digit (format_0d w n)"
proof -
  have "is_digit (CHR ''0'')" by (simp add: is_digit_def)
  then show ?thesis
    using assms digits_are_digits [of "nat n"]
    by (auto simp: format_0d_def zfill_def list_all_iff)
qed

lemma py_mod_range:
  assumes "0 < m"
  shows "0 \<le> py_mod x m \<and> py_mod x m < m"
proof -
  have "of_int \<lfloor>x / m\<rfloor> \<le> x / m" by simp
  then have a: "m * of_int \<lfloor>x / m\<rfloor> \<le> x"
    using assms by (simp add: le_divide_eq mult.commute)
  have "x / m < of_int \<lfloor>x / m\<rfloor> + 1" by linarith
  then have b: "x < m * (of_int \<lfloor>x / m\<rfloor> + 1)"
    using assms by (simp add: divide_less_eq mult.commute)
  show ?thesis
    using a b by (simp add: py_mod_def algebra_simps)
qed

lemma srt_time_parts:
  assumes "0 \<le> t" and "t < 360000"
  shows "0 \<le> py_floordiv t 3600 \<and> py_floordiv t 3600 < 100"
    and "0 \<le> py_floordiv (py_mod t 3600) 60 \<and> py_floordiv (py_mod t 3600) 60 < 60"
    and "0 \<le> py_int (py_mod t 60) \<and> py_int (py_mod t 60) < 60"
    and "0 \<le> py_int (py_mod t 1 * 1000) \<and> py_int (py_mod t 1 * 1000) < 1000"
proof -
  have "0 \<le> t / 3600" and "t / 3600 < 100" using assms by simp_all
  then show "0 \<le> py_floordiv t 3600 \<and> py_floordiv t 3600 < 100"
    by (simp add: py_floordiv_def floor_less_iff)
  have m: "0 \<le> py_mod t 3600 \<and> py_mod t 3600 < 3600" by (rule py_mod_range) simp
  then have "0 \<le> py_mod t 3600 / 60" and "py_mod t 3600 / 60 < 60" by simp_all
  then show "0 \<le> py_floordiv (py_mod t 3600) 60 \<and> py_floordiv (py_mod t 3600) 60 < 60"
    by (simp add: py_floordiv_def floor_less_iff)
  have s: "0 \<le> py_mod t 60 \<and> py_mod t 60 < of_int 60"
    using py_mod_range [of 60 t] by simp
  then show "0 \<le> py_int (py_mod t 60) \<and> py_int (py_mod t 60) < 60"
    using py_int_nonneg [of "py_mod t 60"] py_int_less [of "py_mod t 60" 60] by simp
  have f: "0 \<le> py_mod t 1 \<and> py_mod t 1 < 1" by (rule py_mod_range) simp
  then have "0 \<le> py_mod t 1 * 1000" and "py_mod t 1 * 1000 < of_int 1000" by simp_all
  then show "0 \<le> py_int (py_mod t 1 * 1000) \<and> py_int (py_mod t 1 * 1000) < 1000"
    using py_int_nonneg [of "py_mod t 1 * 1000"] py_int_less [of "py_mod t 1 * 1000" 1000] by simp
qed

lemma srt_time_shape:
  assumes "0 \<le> t" and "t < 360000"
  shows "\<exists>hh mm ss mmm.
           seconds_to_srt_time t = hh @ '':'' @ mm @ '':'' @ ss @ '','' @ mmm
         \<and> length hh = 2 \<and> length mm = 2 \<and> length ss = 2 \<and> length mmm = 3
         \<and> list_all is_digit (hh @ mm @ ss @ mmm)"
proof -
  note p = srt_time_parts [OF assms]
  have hh: "length (format_0d 2 (py_floordiv t 3600)) = 2
            \<and> list_all is_digit (format_0d 2 (py_floordiv t 3600))"
    using p(1) by (intro format_0d_shape length_digits_100) linarith+
  have mm: "length (format_0d 2 (py_floordiv (py_mod t 3600) 60)) = 2
            \<and> list_all is_digit (format_0d 2 (py_floordiv (py_mod t 3600) 60))"
    using p(2) by (intro format_0d_shape length_digits_100) linarith+
  have ss: "length (format_0d 2 (py_int (py_mod t 60))) = 2
            \<and> list_all is_digit (format_0d 2 (py_int (py_mod t 60)))"
    using p(3) by (intro format_0d_shape length_digits_100) linarith+
  have mmm: "length (format_0d 3 (py_int (py_mod t 1 * 1000))) = 3
            \<and> list_all is_digit (format_0d 3 (py_int (py_mod t 1 * 1000)))"
    using p(4) by (intro format_0d_shape length_digits_1000) linarith+
  show ?thesis
    unfolding seconds_to_srt_time_def Let_def
    using hh mm ss mmm by (intro exI conjI) (rule refl, simp_all)
qed

subsection \<open>The rendered text\<close>

text \<open>
  C7 (as amended). The renderer returns the blocks of the segments in order, one
  newline between two blocks: a block is the 1-based index line, the
  \<open>start --> end\<close> line and the text line, each ended by a newline. So a blank line
  stands between two blocks and none after the last one. For the single segment
  \<open>{start: 0, end: 1.5, text: "Bonjour"}\<close> the result ends with one newline. A time
  from 0 up to 100 hours is written as two digits, a colon, two digits, a colon, two
  digits, a comma and three digits.
\<close>

theorem srt_blocks_joined:
  "segments_to_srt segs
     = join ''\<newline>'' (map (\<lambda>(i, seg). srt_block i seg) (enumerate 1 segs))
   \<and> segments_to_srt
         [\<lparr>seg_id = 0, seg_start = 0, seg_end = 3 / 2, audio_path = None, seg_text = ''Bonjour''\<rparr>]
       = ''1\<newline>00:00:00,000 --> 00:00:01,500\<newline>Bonjour\<newline>''
   \<and> (0 \<le> t \<and> t < 360000 \<longrightarrow>
        (\<exists>hh mm ss mmm.
            seconds_to_srt_time t = hh @ '':'' @ mm @ '':'' @ ss @ '','' @ mmm
          \<and> length hh = 2 \<and> length mm = 2 \<and> length ss = 2 \<and> length mmm = 3
          \<and> list_all is_digit (hh @ mm @ ss @ mmm)))"
proof (intro conjI impI)
  show "segments_to_srt segs
     = join ''\<newline>'' (map (\<lambda>(i, seg). srt_block i seg) (enumerate 1 segs))"
    unfolding segments_to_srt_def srt_block_def
    using join_srt_lines [of "''\<newline>''" digits
        "\<lambda>seg. seconds_to_srt_time (seg_start seg) @ '' --> '' @ seconds_to_srt_time (seg_end seg)"
        seg_text "enumerate 1 segs"]
    by simp
  show "segments_to_srt
         [\<lparr>seg_id = 0, seg_start = 0, seg_end = 3 / 2, audio_path = None, seg_text = ''Bonjour''\<rparr>]
       = ''1\<newline>00:00:00,000 --> 00:00:01,500\<newline>Bonjour\<newline>''"
    by code_simp
  assume "0 \<le> t \<and> t < 360000"
  then show "\<exists>hh mm ss mmm.
            seconds_to_srt_time t = hh @ '':'' @ mm @ '':'' @ ss @ '','' @ mmm
          \<and> length hh = 2 \<and> length mm = 2 \<and> length ss = 2 \<and> length mmm = 3
          \<and> list_all is_digit (hh @ mm @ ss @ mmm)"
    using srt_time_shape [of t] by blast
qed

theorem srt_blocks_joined_witness:
  "(0::rat) \<le> 29289 / 8 \<and> (29289 / 8 :: rat) < 360000
   \<and> (\<exists>hh mm ss mmm.
          seconds_to_srt_time (29289 / 8) = hh @ '':'' @ mm @ '':'' @ ss @ '','' @ mmm
        \<and> length hh = 2 \<and> length mm = 2 \<and> length ss = 2 \<and> length mmm = 3
        \<and> list_all is_digit (hh @ mm @ ss @ mmm))
   \<and> seconds_to_srt_time (29289 / 8) = ''01:01:01,125''"
proof -
  have h: "(0::rat) \<le> 29289 / 8 \<and> (29289 / 8 :: rat) < 360000" by simp
  note shape = srt_blocks_joined [of "[]" "29289 / 8", THEN conjunct2, THEN conjunct2,
      rule_format, OF h]
  have v: "seconds_to_srt_time (29289 / 8) = ''01:01:01,125''" by code_simp
  show ?thesis
    using h shape v by (intro conjI) blast+
qed

text \<open>The string of the claim, with a blank line at the end, is not what is returned.\<close>

theorem srt_trailing_blank_line_counterexample:
  "segments_to_srt
     [\<lparr>seg_id = 0, seg_start = 0, seg_end = 3 / 2, audio_path = None, seg_text = ''Bonjour''\<rparr>]
   \<noteq> ''1\<newline>00:00:00,000 --> 00:00:01,500\<newline>Bonjour\<newline>\<newline>''"
  by code_simp

section \<open>Properties of the job table\<close>

lemma fold_set_field_fixed:
  "job_id (fold set_field kw j) = job_id j
   \<and> created_at (fold set_field kw j) = created_at j
   \<and> video_path (fold set_field kw j) = video_path j
   \<and> video_filename (fold set_field kw j) = video_filename j"
proof (induction kw arbitrary: j)
  case Nil
  then show ?case by simp
next
  case (Cons f kw)
  show ?case by (cases f) (simp_all add: Cons.IH)
qed

subsection \<open>A voice generation request on a pending job\<close>

text \<open>
  C6. For a job whose status is \<open>pending\<close>, a generate-voice request fails at once
  with the error of a forbidden transition (HTTP 400, transcription must be
  complete), and the state after the request is the state before it: no field of any
  job has changed and no work is queued.
\<close>

theorem generate_voice_pending_rejected:
  "jobs st jid = Some j \<Longrightarrow> status j = PENDING \<Longrightarrow>
   generate_voice jid request now st
     = (Inl (HTTPException 400 ''Transcription must be complete before generating voice''), st)"
  by (simp add: generate_voice_def get_job_def)

theorem generate_voice_pending_rejected_witness:
  "jobs \<lparr>jobs = (\<lambda>_. None)(''j1'' \<mapsto> new_job ''j1'' ''talk.mp4'' ''storage/uploads/j1/original.mp4'' 7),
         files = (\<lambda>_. None)\<rparr> ''j1''
     = Some (new_job ''j1'' ''talk.mp4'' ''storage/uploads/j1/original.mp4'' 7)
   \<and> status (new_job ''j1'' ''talk.mp4'' ''storage/uploads/j1/original.mp4'' 7) = PENDING
   \<and> generate_voice ''j1''
         \<lparr>language_code = ''f'', request_voice = ''ff_siwis'', request_speed = 1\<rparr> 9
         \<lparr>jobs = (\<lambda>_. None)(''j1'' \<mapsto> new_job ''j1'' ''talk.mp4'' ''storage/uploads/j1/original.mp4'' 7),
          files = (\<lambda>_. None)\<rparr>
       = (Inl (HTTPException 400 ''Transcription must be complete before generating voice''),
          \<lparr>jobs = (\<lambda>_. None)(''j1'' \<mapsto> new_job ''j1'' ''talk.mp4'' ''storage/uploads/j1/original.mp4'' 7),
           files = (\<lambda>_. None)\<rparr>)"
proof -
  let ?j = "new_job ''j1'' ''talk.mp4'' ''storage/uploads/j1/original.mp4'' 7"
  let ?st = "\<lparr>jobs = (\<lambda>_. None)(''j1'' \<mapsto> ?j), files = (\<lambda>_. None)\<rparr>"
  have h1: "jobs ?st ''j1'' = Some ?j" by simp
  have h2: "status ?j = PENDING" by (simp add: new_job_def)
  from generate_voice_pending_rejected [OF h1 h2] h1 h2 show ?thesis
    by (intro conjI)
qed

subsection \<open>The update operation\<close>

text \<open>
  C8 (as amended). For an unknown job id the update does nothing and reports
  nothing: the table is unchanged and the call returns normally. For a known id it
  stores the given fields and then the time of the call as last-update time; the
  identifier, the creation time and every other job are left as they were.
\<close>

theorem update_job_known_or_ignored:
  "(tbl jid = None \<longrightarrow> update_job jid kw now tbl = (Inr (), tbl))
   \<and> (tbl jid = Some j \<longrightarrow>
        (\<exists>j'. update_job jid kw now tbl = (Inr (), tbl(jid \<mapsto> j'))
            \<and> j' = (fold set_field kw j)\<lparr>updated_at := now\<rparr>
            \<and> updated_at j' = now
            \<and> job_id j' = job_id j
            \<and> created_at j' = created_at j))"
  by (simp add: update_job_def fold_set_field_fixed)

theorem update_job_known_or_ignored_witness:
  "update_job ''ghost'' [Progress 50] 9 ((\<lambda>_. None)(''j1'' \<mapsto> new_job ''j1'' ''talk.mp4'' ''p'' 7))
     = (Inr (), (\<lambda>_. None)(''j1'' \<mapsto> new_job ''j1'' ''talk.mp4'' ''p'' 7))
   \<and> (\<exists>j'. update_job ''j1'' [Status TRANSCRIBING, Progress 10] 9
               ((\<lambda>_. None)(''j1'' \<mapsto> new_job ''j1'' ''talk.mp4'' ''p'' 7))
             = (Inr (), ((\<lambda>_. None)(''j1'' \<mapsto> new_job ''j1'' ''talk.mp4'' ''p'' 7))(''j1'' \<mapsto> j'))
          \<and> j' = (fold set_field [Status TRANSCRIBING, Progress 10]
                    (new_job ''j1'' ''talk.mp4'' ''p'' 7))\<lparr>updated_at := 9\<rparr>
          \<and> updated_at j' = 9
          \<and> job_id j' = job_id (new_job ''j1'' ''talk.mp4'' ''p'' 7)
          \<and> created_at j' = created_at (new_job ''j1'' ''talk.mp4'' ''p'' 7))
   \<and> status ((fold set_field [Status TRANSCRIBING, Progress 10]
                 (new_job ''j1'' ''talk.mp4'' ''p'' 7))\<lparr>updated_at := 9\<rparr>) = TRANSCRIBING
   \<and> progress ((fold set_field [Status TRANSCRIBING, Progress 10]
                 (new_job ''j1'' ''talk.mp4'' ''p'' 7))\<lparr>updated_at := 9\<rparr>) = 10"
proof -
  let ?j = "new_job ''j1'' ''talk.mp4'' ''p'' 7"
  let ?tbl = "(\<lambda>_. None)(''j1'' \<mapsto> ?j)"
  have unknown: "?tbl ''ghost'' = None" by simp
  have known: "?tbl ''j1'' = Some ?j" by simp
  note a = update_job_known_or_ignored [of ?tbl "''ghost''" "[Progress 50]" 9 ?j,
      THEN conjunct1, rule_format, OF unknown]
  note b = update_job_known_or_ignored [of ?tbl "''j1''" "[Status TRANSCRIBING, Progress 10]" 9 ?j,
      THEN conjunct2, rule_format, OF known]
  have c: "status ((fold set_field [Status TRANSCRIBING, Progress 10] ?j)\<lparr>updated_at := 9\<rparr>)
             = TRANSCRIBING"
    by simp
  have d: "progress ((fold set_field [Status TRANSCRIBING, Progress 10] ?j)\<lparr>updated_at := 9\<rparr>) = 10"
    by simp
  show ?thesis
    by (intro conjI a b c d)
qed

text \<open>
  The claim as stated fails for an unknown id: \<open>get_job\<close> reports 404 there, the
  update returns normally and leaves the table as it was.
\<close>

theorem update_job_unknown_counterexample:
  "get_job (\<lambda>_. None) ''ghost'' = Inl (HTTPException 404 ''Job not found'')
   \<and> update_job ''ghost'' [Status FAILED, Progress 50] 9 (\<lambda>_. None) = (Inr (), \<lambda>_. None)"
  by (simp add: get_job_def update_job_def)

subsection \<open>Upload\<close>

text \<open>
  C10. An upload whose file name has a disallowed extension, or whose content is
  larger than the maximum size, fails and leaves the state as it was: no job is
  added. An upload that returns a job id has stored a job under that id, with status
  \<open>pending\<close>, and has saved the content at the job's video path.
\<close>

theorem upload_rejected_or_stored:
  "((lower (path_suffix filename) \<notin> set ALLOWED_VIDEO_EXTENSIONS
       \<or> MAX_UPLOAD_SIZE < length content)
      \<longrightarrow> (\<exists>e. upload_video filename content uuid4 now st = (Inl e, st)))
   \<and> (\<forall>response st'.
         upload_video filename content uuid4 now st = (Inr response, st') \<longrightarrow>
         (\<exists>j. jobs st' (response_job_id response) = Some j
            \<and> job_id j = response_job_id response
            \<and> status j = PENDING
            \<and> files st' (video_path j) = Some (Blob content)))"
  by (auto simp: upload_video_def Let_def new_job_def)

theorem upload_rejected_or_stored_witness:
  "(\<exists>e. upload_video ''notes.txt'' [1, 2, 3] ''j1'' 7 \<lparr>jobs = (\<lambda>_. None), files = (\<lambda>_. None)\<rparr>
          = (Inl e, \<lparr>jobs = (\<lambda>_. None), files = (\<lambda>_. None)\<rparr>))
   \<and> (\<exists>e. upload_video ''talk.mp4'' (replicate 524288001 0) ''j1'' 7
             \<lparr>jobs = (\<lambda>_. None), files = (\<lambda>_. None)\<rparr>
          = (Inl e, \<lparr>jobs = (\<lambda>_. None), files = (\<lambda>_. None)\<rparr>))
   \<and> (\<exists>j. jobs (snd (upload_video ''Talk.MP4'' [1, 2, 3] ''j1'' 7
                       \<lparr>jobs = (\<lambda>_. None), files = (\<lambda>_. None)\<rparr>)) ''j1'' = Some j
          \<and> job_id j = ''j1''
          \<and> status j = PENDING
          \<and> files (snd (upload_video ''Talk.MP4'' [1, 2, 3] ''j1'' 7
                       \<lparr>jobs = (\<lambda>_. None), files = (\<lambda>_. None)\<rparr>)) (video_path j)
              = Some (Blob [1, 2, 3]))"
proof -
  let ?st = "\<lparr>jobs = (\<lambda>_. None), files = (\<lambda>_. None)\<rparr>"
  have ext: "lower (path_suffix ''notes.txt'') \<notin> set ALLOWED_VIDEO_EXTENSIONS"
    by code_simp
  have size: "MAX_UPLOAD_SIZE < length (replicate 524288001 (0::nat))"
    by (simp add: MAX_UPLOAD_SIZE_def)
  have a: "\<exists>e. upload_video ''notes.txt'' [1, 2, 3] ''j1'' 7 ?st = (Inl e, ?st)"
    using upload_rejected_or_stored [of "''notes.txt''" "[1, 2, 3]" "''j1''" 7 ?st] ext
    by blast
  have b: "\<exists>e. upload_video ''talk.mp4'' (replicate 524288001 0) ''j1'' 7 ?st = (Inl e, ?st)"
    using upload_rejected_or_stored [of "''talk.mp4''" "replicate 524288001 0" "''j1''" 7 ?st] size
    by blast
  have ok_ext: "lower (path_suffix ''Talk.MP4'') = ''.mp4''"
    by code_simp
  have ok: "fst (upload_video ''Talk.MP4'' [1, 2, 3] ''j1'' 7 ?st)
              = Inr \<lparr>response_job_id = ''j1'', response_filename = ''Talk.MP4'', size_bytes = 3,
                     response_message = ''Video uploaded successfully. Ready for transcription.''\<rparr>"
    by (simp add: upload_video_def Let_def ok_ext ALLOWED_VIDEO_EXTENSIONS_def MAX_UPLOAD_SIZE_def)
  then have "upload_video ''Talk.MP4'' [1, 2, 3] ''j1'' 7 ?st
      = (Inr \<lparr>response_job_id = ''j1'', response_filename = ''Talk.MP4'', size_bytes = 3,
              response_message = ''Video uploaded successfully. Ready for transcription.''\<rparr>,
         snd (upload_video ''Talk.MP4'' [1, 2, 3] ''j1'' 7 ?st))"
    by (metis prod.collapse)
  then have c: "\<exists>j. jobs (snd (upload_video ''Talk.MP4'' [1, 2, 3] ''j1'' 7 ?st)) ''j1'' = Some j
          \<and> job_id j = ''j1''
          \<and> status j = PENDING
          \<and> files (snd (upload_video ''Talk.MP4'' [1, 2, 3] ''j1'' 7 ?st)) (video_path j)
              = Some (Blob [1, 2, 3])"
    using upload_rejected_or_stored [of "''Talk.MP4''" "[1, 2, 3]" "''j1''" 7 ?st]
    by fastforce
  show ?thesis
    by (intro conjI a b c)
qed

section \<open>Properties of the voice generation stage\<close>

lemma updated_same:
  "updated jid call now tbl jid
     = map_option (\<lambda>j. (fold set_field (kwargs call) j)\<lparr>updated_at := now\<rparr>) (tbl jid)"
  by (simp add: updated_def update_job_def split: option.splits)

lemma updated_other: "other \<noteq> jid \<Longrightarrow> updated jid call now tbl other = tbl other"
  by (simp add: updated_def update_job_def split: option.splits)

lemma updated_keeps_job:
  assumes "tbl jid = Some j"
  shows "\<exists>j'. updated jid call now tbl jid = Some j' \<and> video_path j' = video_path j"
  using assms by (simp add: updated_same fold_set_field_fixed)

lemma generate_segments_loop_results:
  "snd (generate_segments_loop c lang dir v sp ps (fs, acc))
     = acc @ map (\<lambda>(i, seg). synthesized dir i seg)
               (filter (\<lambda>(i, seg). survives c lang v sp seg) ps)"
proof (induction ps arbitrary: fs acc)
  case Nil
  then show ?case by simp
next
  case (Cons p ps)
  obtain i seg where p: "p = (i, seg)" by (cases p)
  show ?case
  proof (cases "strip (seg_text seg) = []")
    case True
    then show ?thesis by (simp add: p Cons.IH survives_def)
  next
    case False
    show ?thesis
    proof (cases "generate c lang (strip (seg_text seg)) v sp")
      case (Inl e)
      then show ?thesis
        using False by (simp add: p Cons.IH survives_def generate_to_file_def)
    next
      case (Inr r)
      then show ?thesis
        using False by (cases r) (simp add: p Cons.IH survives_def generate_to_file_def)
    qed
  qed
qed

lemma voice_loop_as_driver:
  assumes "jobs st jid = Some j"
  shows "\<exists>st' j'. voice_loop c jid dir lang v sp n now ps (st, acc)
              = (st', snd (generate_segments_loop c lang dir v sp ps (files st, acc)))
          \<and> files st' = fst (generate_segments_loop c lang dir v sp ps (files st, acc))
          \<and> jobs st' jid = Some j' \<and> video_path j' = video_path j"
  using assms
proof (induction ps arbitrary: st acc j)
  case Nil
  then show ?case by simp
next
  case (Cons p ps)
  obtain i seg where p: "p = (i, seg)" by (cases p)
  define st1 where "st1 = st\<lparr>jobs := updated jid (Generating_segment i n) now (jobs st)\<rparr>"
  obtain j1 where j1: "jobs st1 jid = Some j1" and vp: "video_path j1 = video_path j"
    using updated_keeps_job [of "jobs st" jid j "Generating_segment i n" now] Cons.prems
    by (auto simp: st1_def)
  have f1: "files st1 = files st" by (simp add: st1_def)
  show ?case
  proof (cases "strip (seg_text seg) = []")
    case True
    from Cons.IH [OF j1, of acc] show ?thesis
      using True vp by (simp add: p st1_def [symmetric] f1 Let_def)
  next
    case False
    show ?thesis
    proof (cases "generate_to_file c lang (strip (seg_text seg))
                    (path_join dir (''segment_'' @ format_0d 4 (int i) @ ''.wav'')) v sp (files st)")
      case (Inl e)
      from Cons.IH [OF j1, of acc] show ?thesis
        using False Inl vp by (simp add: p st1_def [symmetric] f1 Let_def)
    next
      case (Inr r)
      obtain q fs' where r: "r = (q, fs')" by (cases r)
      have j2: "jobs (st1\<lparr>files := fs'\<rparr>) jid = Some j1" using j1 by simp
      from Cons.IH [OF j2, of "acc @ [synthesized dir i seg]"] show ?thesis
        using False Inr r vp by (simp add: p st1_def [symmetric] f1 Let_def)
    qed
  qed
qed

text \<open>
  C5. The driver's result list holds exactly the segments whose stripped text is not
  empty and whose synthesis does not raise, in input order: a segment whose
  synthesis raises is dropped and the segments after it are still processed. The
  loop of the stage visits the same segments and writes the same files as the
  driver. When the probe of the video and the assembly of that list succeed, the
  stage ends with status \<open>voice_generated\<close> and progress 100, whatever number of
  segments failed, and the assembled track is saved as the voiceover.
\<close>

theorem partial_synthesis_succeeds:
  assumes "jobs st jid = Some j"
      and "generate_segments c (tts_lang code) segs
             (path_join (path_parent (video_path j)) ''segments'') v sp (files st)
           = (fs', generated)"
      and "probe_duration c (video_path j) = Inr duration"
      and "assemble_timeline fs' generated duration DEFAULT_SAMPLE_RATE = Inr buffer"
  shows "generated
           = surviving_segments c (tts_lang code)
               (path_join (path_parent (video_path j)) ''segments'') v sp segs
       \<and> (\<exists>j'. jobs (run_voice_generation c jid segs code v sp now st) jid = Some j'
              \<and> status j' = VOICE_GENERATED
              \<and> progress j' = 100
              \<and> voiceover_path j' = Some (path_join (path_parent (video_path j)) ''voiceover.wav''))
       \<and> files (run_voice_generation c jid segs code v sp now st)
            (path_join (path_parent (video_path j)) ''voiceover.wav'')
           = Some (Wav buffer DEFAULT_SAMPLE_RATE)"
proof -
  let ?dir = "path_join (path_parent (video_path j)) ''segments''"
  let ?outp = "path_join (path_parent (video_path j)) ''voiceover.wav''"
  define st1 where "st1 = st\<lparr>jobs := updated jid Initializing_tts now (jobs st)\<rparr>"
  have driver: "generate_segments_loop c (tts_lang code) ?dir v sp (enumerate 0 segs) (files st, [])
                  = (fs', generated)"
    using assms(2) by (simp add: generate_segments_def)
  have survivors: "generated = surviving_segments c (tts_lang code) ?dir v sp segs"
    using generate_segments_loop_results [of c "tts_lang code" ?dir v sp "enumerate 0 segs" "files st" "[]"]
    by (simp add: driver surviving_segments_def)
  obtain j1 where j1: "jobs st1 jid = Some j1" and vp1: "video_path j1 = video_path j"
    using updated_keeps_job [of "jobs st" jid j Initializing_tts now] assms(1)
    by (auto simp: st1_def)
  have f1: "files st1 = files st" by (simp add: st1_def)
  obtain st2 j2 where
    loop: "voice_loop c jid ?dir (tts_lang code) v sp (length segs) now (enumerate 0 segs) (st1, [])
             = (st2, generated)" and
    f2: "files st2 = fs'" and j2: "jobs st2 jid = Some j2"
    using voice_loop_as_driver [OF j1, of c ?dir "tts_lang code" v sp "length segs" now
        "enumerate 0 segs" "[]"]
    by (auto simp: f1 driver)
  obtain j3 where j3: "updated jid Concatenating now (jobs st2) jid = Some j3"
    using updated_keeps_job [of "jobs st2" jid j2 Concatenating now] j2
    by auto
  have cat: "concatenate_audio_with_timing fs' generated duration ?outp DEFAULT_SAMPLE_RATE
               = Inr (?outp, fs'(?outp \<mapsto> Wav buffer DEFAULT_SAMPLE_RATE))"
    by (simp add: concatenate_audio_with_timing_def assms(4))
  have run: "run_voice_generation c jid segs code v sp now st
               = st2\<lparr>files := fs'(?outp \<mapsto> Wav buffer DEFAULT_SAMPLE_RATE),
                     jobs := updated jid
                       (Voice_complete ?outp \<lparr>lang_code = code, voice = v, speed = sp\<rparr>) now
                       (updated jid Concatenating now (jobs st2))\<rparr>"
    unfolding run_voice_generation_def
    by (simp add: assms(1,3) Let_def st1_def [symmetric] loop f2 cat)
  have finished: "\<exists>j'. jobs (run_voice_generation c jid segs code v sp now st) jid = Some j'
              \<and> status j' = VOICE_GENERATED \<and> progress j' = 100
              \<and> voiceover_path j' = Some ?outp"
    by (simp add: run updated_same [of jid "Voice_complete _ _"] j3)
  have saved: "files (run_voice_generation c jid segs code v sp now st) ?outp
                 = Some (Wav buffer DEFAULT_SAMPLE_RATE)"
    by (simp add: run)
  show ?thesis
    using survivors finished saved by blast
qed

theorem partial_synthesis_succeeds_witness:
  "snd (generate_segments example_collaborators (tts_lang ''a'') example_segments
          (path_join (path_parent (video_path example_job)) ''segments'') ''af_heart'' 1
          (files example_world))
     = surviving_segments example_collaborators (tts_lang ''a'')
         (path_join (path_parent (video_path example_job)) ''segments'') ''af_heart'' 1
         example_segments
   \<and> (\<exists>j'. jobs (run_voice_generation example_collaborators ''j1'' example_segments ''a''
                    ''af_heart'' 1 9 example_world) ''j1'' = Some j'
          \<and> status j' = VOICE_GENERATED
          \<and> progress j' = 100
          \<and> voiceover_path j'
              = Some (path_join (path_parent (video_path example_job)) ''voiceover.wav''))
   \<and> files (run_voice_generation example_collaborators ''j1'' example_segments ''a''
               ''af_heart'' 1 9 example_world)
        (path_join (path_parent (video_path example_job)) ''voiceover.wav'')
       = Some (Wav [1, 2, 0, 0, 0, 0, 0, 0, 1, 2, 0, 0, 1, 2, 0, 0, 1, 2, 0, 0, 0, 0, 0, 0]
                 DEFAULT_SAMPLE_RATE)
   \<and> map seg_id
         (snd (generate_segments example_collaborators (tts_lang ''a'') example_segments
                 (path_join (path_parent (video_path example_job)) ''segments'') ''af_heart'' 1
                 (files example_world)))
       = [1, 3, 4, 5]"
proof -
  let ?dir = "path_join (path_parent (video_path example_job)) ''segments''"
  let ?driver = "generate_segments example_collaborators (tts_lang ''a'') example_segments
                   ?dir ''af_heart'' 1 (files example_world)"
  have h1: "jobs example_world ''j1'' = Some example_job"
    by (simp add: example_world_def)
  have h2: "?driver = (fst ?driver, snd ?driver)"
    by simp
  have h3: "probe_duration example_collaborators (video_path example_job) = Inr (1 / 1000)"
    by (simp add: example_collaborators_def)
  have h4: "assemble_timeline (fst ?driver) (snd ?driver) (1 / 1000) DEFAULT_SAMPLE_RATE
              = Inr [1, 2, 0, 0, 0, 0, 0, 0, 1, 2, 0, 0, 1, 2, 0, 0, 1, 2, 0, 0, 0, 0, 0, 0]"
    by code_simp
  have ids: "map seg_id (snd ?driver) = [1, 3, 4, 5]"
    by code_simp
  note inst = partial_synthesis_succeeds [where st = example_world and jid = "''j1''"
      and j = example_job and c = example_collaborators and code = "''a''"
      and segs = example_segments and v = "''af_heart''" and sp = 1 and now = 9,
      OF h1 h2 h3 h4]
  show ?thesis
    using inst ids by (intro conjI) blast+
qed

section \<open>Progress stays between 0 and 100\<close>

lemma segment_progress_bounds:
  assumes "i < n"
  shows "20 \<le> segment_progress i n \<and> segment_progress i n < 80"
proof -
  let ?x = "(of_nat i :: rat) / of_nat n * 60"
  have n: "(0::rat) < of_nat n" using assms by simp
  have "(of_nat i :: rat) < of_nat n" using assms by simp
  then have frac: "(of_nat i :: rat) / of_nat n < 1" using n by (simp add: divide_less_eq)
  have lo: "0 \<le> ?x" by simp
  have "?x < 1 * 60" using frac by (intro mult_strict_right_mono) simp_all
  then have hi: "?x < of_int 60" by simp
  have "0 \<le> py_int ?x" using lo by (rule py_int_nonneg)
  moreover have "py_int ?x < 60" using lo hi by (rule py_int_less)
  ultimately show ?thesis by (simp add: segment_progress_def)
qed

lemma kwargs_progress:
  assumes "occurs call" and "Progress p \<in> set (kwargs call)"
  shows "0 \<le> p \<and> p \<le> 100"
proof (cases call)
  case (Generating_segment i n)
  with assms have "i < n" and "p = segment_progress i n" by auto
  then show ?thesis using segment_progress_bounds [of i n] by simp
qed (use assms in auto)

lemma fold_set_field_progress:
  assumes "0 \<le> progress j \<and> progress j \<le> 100"
      and "\<And>p. Progress p \<in> set kw \<Longrightarrow> 0 \<le> p \<and> p \<le> 100"
  shows "0 \<le> progress (fold set_field kw j) \<and> progress (fold set_field kw j) \<le> 100"
  using assms
proof (induction kw arbitrary: j)
  case Nil
  then show ?case by simp
next
  case (Cons f kw)
  have "0 \<le> progress (set_field f j) \<and> progress (set_field f j) \<le> 100"
    using Cons.prems by (cases f) auto
  then show ?case
    using Cons.IH [of "set_field f j"] Cons.prems(2) by simp
qed

lemma step_progress:
  assumes "\<And>jid j. tbl jid = Some j \<Longrightarrow> 0 \<le> progress j \<and> progress j \<le> 100"
      and "step e tbl jid = Some j"
  shows "0 \<le> progress j \<and> progress j \<le> 100"
proof (cases e)
  case (Job_created k filename file_path now)
  then show ?thesis
    using assms by (cases "jid = k") (auto simp: new_job_def)
next
  case (Job_updated k call now)
  show ?thesis
  proof (cases "occurs call \<and> jid = k")
    case True
    then obtain j0 where j0: "tbl k = Some j0"
      and j: "j = (fold set_field (kwargs call) j0)\<lparr>updated_at := now\<rparr>"
      using assms(2) Job_updated by (auto simp: updated_same)
    have "0 \<le> progress (fold set_field (kwargs call) j0)
          \<and> progress (fold set_field (kwargs call) j0) \<le> 100"
      using assms(1) [OF j0] kwargs_progress True by (intro fold_set_field_progress) auto
    then show ?thesis by (simp add: j)
  next
    case False
    then have "step e tbl jid = tbl jid"
      using Job_updated by (auto simp: updated_other)
    then show ?thesis using assms by simp
  qed
qed

lemma fold_step_progress:
  assumes "\<And>jid j. tbl jid = Some j \<Longrightarrow> 0 \<le> progress j \<and> progress j \<le> 100"
      and "fold step events tbl jid = Some j"
  shows "0 \<le> progress j \<and> progress j \<le> 100"
  using assms
proof (induction events arbitrary: tbl)
  case Nil
  then show ?case by simp
next
  case (Cons e events)
  have "\<And>k j'. step e tbl k = Some j' \<Longrightarrow> 0 \<le> progress j' \<and> progress j' \<le> 100"
    using step_progress Cons.prems(1) by blast
  then show ?case
    using Cons.IH [of "step e tbl"] Cons.prems(2) by simp
qed

text \<open>
  C9. After any sequence of writes to the job table (a job stored by an upload, or a
  call of \<open>update_job\<close> at one of its places in the routers, in any order and for
  any jobs), the progress of every job lies between 0 and 100. The progress written
  before segment \<open>i\<close> of \<open>total_segments\<close> is at least 20 and at most 80.
\<close>

theorem progress_always_in_range:
  "(table_after events jid = Some j \<longrightarrow> 0 \<le> progress j \<and> progress j \<le> 100)
   \<and> (i < total_segments \<longrightarrow>
        20 \<le> segment_progress i total_segments \<and> segment_progress i total_segments \<le> 80)"
proof
  show "table_after events jid = Some j \<longrightarrow> 0 \<le> progress j \<and> progress j \<le> 100"
    unfolding table_after_def using fold_step_progress [of "\<lambda>_. None" events jid j] by simp
  show "i < total_segments \<longrightarrow>
        20 \<le> segment_progress i total_segments \<and> segment_progress i total_segments \<le> 80"
    using segment_progress_bounds [of i total_segments] by auto
qed

theorem progress_always_in_range_witness:
  "(\<exists>j. table_after [Job_created ''j1'' ''talk.mp4'' ''storage/uploads/j1/original.mp4'' 7,
                       Job_updated ''j1'' Voice_started 8,
                       Job_updated ''j1'' (Generating_segment 4 5) 9] ''j1'' = Some j
        \<and> progress j = 68 \<and> 0 \<le> progress j \<and> progress j \<le> 100)
   \<and> (4::nat) < 5
   \<and> 20 \<le> segment_progress 4 5 \<and> segment_progress 4 5 \<le> 80"
proof -
  let ?events = "[Job_created ''j1'' ''talk.mp4'' ''storage/uploads/j1/original.mp4'' 7,
                  Job_updated ''j1'' Voice_started 8,
                  Job_updated ''j1'' (Generating_segment 4 5) 9]"
  have "map_option progress (table_after ?events ''j1'') = Some 68"
    by code_simp
  then obtain j where tj: "table_after ?events ''j1'' = Some j" and pj: "progress j = 68"
    by auto
  have lt: "(4::nat) < 5" by simp
  note r = progress_always_in_range [of ?events "''j1''" j 4 5, THEN conjunct1, rule_format, OF tj]
  note s = progress_always_in_range [of ?events "''j1''" j 4 5, THEN conjunct2, rule_format, OF lt]
  show ?thesis
    using tj pj r s lt by blast
qed

subsection \<open>The handlers write to the table through these events\<close>

lemma upload_video_event:
  "jobs (snd (upload_video filename content uuid4 now st)) = jobs st
   \<or> (\<exists>p. jobs (snd (upload_video filename content uuid4 now st))
            = step (Job_created uuid4 filename p now) (jobs st))"
  by (auto simp: upload_video_def Let_def)

lemma generate_voice_event:
  "jobs (snd (generate_voice jid request now st)) = jobs st
   \<or> jobs (snd (generate_voice jid request now st))
        = step (Job_updated jid Voice_started now) (jobs st)"
  by (simp add: generate_voice_def split: sum.splits option.splits)

lemma voice_loop_events:
  assumes "\<And>i seg. (i, seg) \<in> set ps \<Longrightarrow> i < n"
  shows "\<exists>events. jobs (fst (voice_loop c jid dir lang v sp n now ps (st, acc)))
                     = fold step events (jobs st)"
  using assms
proof (induction ps arbitrary: st acc)
  case Nil
  show ?case by (rule exI [of _ "[]"]) simp
next
  case (Cons p ps)
  obtain i seg where p: "p = (i, seg)" by (cases p)
  have i: "i < n" using Cons.prems [of i seg] by (simp add: p)
  define st1 where "st1 = st\<lparr>jobs := updated jid (Generating_segment i n) now (jobs st)\<rparr>"
  have j1: "jobs st1 = step (Job_updated jid (Generating_segment i n) now) (jobs st)"
    using i by (simp add: st1_def)
  have rest: "\<exists>events. jobs (fst (voice_loop c jid dir lang v sp n now ps (st', acc')))
                         = fold step events (jobs st1)"
    if "jobs st' = jobs st1" for st' acc'
    using Cons.IH [of st' acc'] Cons.prems that by auto
  have "\<exists>events. jobs (fst (voice_loop c jid dir lang v sp n now (p # ps) (st, acc)))
                    = fold step events (jobs st1)"
    using rest [of st1] rest [of "st1\<lparr>files := fs'\<rparr>" for fs']
    by (auto simp: p st1_def [symmetric] Let_def split: sum.splits prod.splits)
  then obtain events where
    "jobs (fst (voice_loop c jid dir lang v sp n now (p # ps) (st, acc)))
       = fold step (Job_updated jid (Generating_segment i n) now # events) (jobs st)"
    by (auto simp: j1)
  then show ?case by blast
qed

lemma run_voice_generation_events:
  "\<exists>events. jobs (run_voice_generation c jid segs code v sp now st) = fold step events (jobs st)"
proof (cases "jobs st jid")
  case None
  have "jobs (run_voice_generation c jid segs code v sp now st)
          = fold step [Job_updated jid (Voice_failed (str_of_error KeyError)) now] (jobs st)"
    by (simp add: run_voice_generation_def None)
  then show ?thesis by blast
next
  case (Some j)
  let ?dir = "path_join (path_parent (video_path j)) ''segments''"
  let ?st1 = "st\<lparr>jobs := updated jid Initializing_tts now (jobs st)\<rparr>"
  let ?loop = "voice_loop c jid ?dir (tts_lang code) v sp (length segs) now (enumerate 0 segs)
                 (?st1, [])"
  have "\<And>i seg. (i, seg) \<in> set (enumerate 0 segs) \<Longrightarrow> i < length segs"
    by (simp add: in_set_enumerate_eq)
  then obtain loop_events where
    loop: "jobs (fst ?loop) = fold step loop_events (jobs ?st1)"
    using voice_loop_events [of "enumerate 0 segs" "length segs" c jid ?dir "tts_lang code" v sp
        now ?st1 "[]"]
    by blast
  have st1: "jobs ?st1 = step (Job_updated jid Initializing_tts now) (jobs st)"
    by simp
  obtain st2 generated where res: "?loop = (st2, generated)"
    by (cases ?loop)
  have st2: "jobs st2 = jobs (fst ?loop)"
    by (simp add: res)
  have "\<exists>last_call. occurs last_call
       \<and> jobs (run_voice_generation c jid segs code v sp now st)
       = updated jid last_call now (updated jid Concatenating now (jobs (fst ?loop)))"
  proof (cases "probe_duration c (video_path j)")
    case (Inl msg)
    then show ?thesis
      by (intro exI [of _ "Voice_failed msg"])
        (simp add: run_voice_generation_def Some Let_def res)
  next
    case (Inr duration)
    show ?thesis
    proof (cases "concatenate_audio_with_timing
                    (files (st2\<lparr>jobs := updated jid Concatenating now (jobs st2)\<rparr>)) generated
                    duration (path_join (path_parent (video_path j)) ''voiceover.wav'')
                    DEFAULT_SAMPLE_RATE")
      case (Inl e)
      then show ?thesis
        using Inr
        by (intro exI [of _ "Voice_failed (str_of_error e)"])
          (simp add: run_voice_generation_def Some Let_def res)
    next
      case inner: (Inr r)
      then show ?thesis
        using Inr
        by (intro exI [of _ "Voice_complete (path_join (path_parent (video_path j)) ''voiceover.wav'')
                               \<lparr>lang_code = code, voice = v, speed = sp\<rparr>"])
          (cases r, simp add: run_voice_generation_def Some Let_def res)
    qed
  qed
  then obtain last_call where
    "occurs last_call" and
    "jobs (run_voice_generation c jid segs code v sp now st)
       = updated jid last_call now (updated jid Concatenating now (jobs (fst ?loop)))"
    by blast
  then have "jobs (run_voice_generation c jid segs code v sp now st)
       = fold step ((Job_updated jid Initializing_tts now # loop_events
                     @ [Job_updated jid Concatenating now]) @ [Job_updated jid last_call now])
           (jobs st)"
    by (simp add: loop)
  then show ?thesis by blast
qed

lemma run_voice_generation_progress:
  assumes "\<And>k j. jobs st k = Some j \<Longrightarrow> 0 \<le> progress j \<and> progress j \<le> 100"
      and "jobs (run_voice_generation c jid segs code v sp now st) k = Some j"
  shows "0 \<le> progress j \<and> progress j \<le> 100"
proof -
  obtain events where
    "jobs (run_voice_generation c jid segs code v sp now st) = fold step events (jobs st)"
    using run_voice_generation_events by blast
  with assms(2) have "fold step events (jobs st) k = Some j" by simp
  with assms(1) show ?thesis by (rule fold_step_progress)
qed

end
